theory Spec2Isabelle
  imports Main "HOL-Library.Sublist"
begin

section \<open>The script \<^verbatim>\<open>docs/multipass-setup.py\<close>\<close>

text \<open>
  The script is one module body: it binds the string literal \<^verbatim>\<open>guide_content\<close>, writes it
  to the file \<^verbatim>\<open>multipass_setup_guide.md\<close> inside a \<^verbatim>\<open>with open(..., 'w')\<close> statement, and
  then calls \<^verbatim>\<open>print\<close> nine times. It defines no function, reads no argument and no
  environment variable, names no encoding, and catches no exception.

  The embedding passes the state of the process and of the file system explicitly. The
  library calls of the script (\<^verbatim>\<open>open\<close>, \<^verbatim>\<open>write\<close>, the \<^verbatim>\<open>close\<close> of the \<^verbatim>\<open>with\<close> statement,
  \<^verbatim>\<open>print\<close>) become functions on that state; an exception is the value \<open>Inl e\<close>,
  returned together with the state reached when it was raised. What these calls do
  beyond the script's own text (the encoding of text, the buffering of standard
  output, symbolic and hard links, the errors of the operating system) is modelled
  after Python 3 on a POSIX system; the model starts where the interpreter has started.
\<close>

subsection \<open>Text\<close>

text \<open>
  A Python \<^verbatim>\<open>str\<close> is held as a \<^typ>\<open>string\<close>, one character per byte of its UTF-8
  form, which is also the encoding of the source file. An encoding is a function from
  a text held this way to the bytes written, or to \<open>None\<close> where it cannot encode the
  text; UTF-8 is the identity. The literals of the script hold three characters outside
  ASCII; they are named here by their UTF-8 bytes. The backslash, written \<^verbatim>\<open>\\\<close> in
  the Python literal, is one character of the string.
\<close>

definition backslash :: string where
  "backslash = [CHR 0x5C]"

definition rightwards_arrow :: string where
  "rightwards_arrow = [CHR 0xE2, CHR 0x86, CHR 0x92]"

definition left_right_arrow :: string where
  "left_right_arrow = [CHR 0xE2, CHR 0x86, CHR 0x94]"

definition check_mark :: string where
  "check_mark = [CHR 0xE2, CHR 0x9C, CHR 0x85]"

text \<open>
  The literal \<^verbatim>\<open>guide_content\<close> (lines 2 to 472 of the script), one string per source
  line, each ended by the newline that ends the line in the triple-quoted literal.
\<close>

definition guide_content :: string where
  \<open>guide_content =
   ''# Multipass Setup Guide: VM Management with Podman\<newline>'' @
   ''\<newline>'' @
   ''## Overview\<newline>'' @
   ''This guide provides complete instructions for setting up Multipass on macOS to manage Linux VMs with Docker-like workflow. Each VM can run containerized applications (like PostgreSQL) with full isolation and easy management.\<newline>'' @
   ''\<newline>'' @
   ''## Table of Contents\<newline>'' @
   ''1. [Installation](#installation)\<newline>'' @
   ''2. [Basic Setup](#basic-setup)\<newline>'' @
   ''3. [VM Configuration with Podman](#vm-configuration-with-podman)\<newline>'' @
   ''4. [VSCode Integration](#vscode-integration)\<newline>'' @
   ''5. [Common Operations](#common-operations)\<newline>'' @
   ''6. [Example Workflows](#example-workflows)\<newline>'' @
   ''7. [Troubleshooting](#troubleshooting)\<newline>'' @
   ''\<newline>'' @
   ''---\<newline>'' @
   ''\<newline>'' @
   ''## Installation\<newline>'' @
   ''\<newline>'' @
   ''### Install Multipass\<newline>'' @
   ''```bash\<newline>'' @
   ''# Install via Homebrew\<newline>'' @
   ''brew install --cask multipass\<newline>'' @
   ''\<newline>'' @
   ''# Verify installation\<newline>'' @
   ''multipass version\<newline>'' @
   ''```\<newline>'' @
   ''\<newline>'' @
   ''### Install VSCode Remote-SSH Extension\<newline>'' @
   ''```bash\<newline>'' @
   ''# Install Remote-SSH extension\<newline>'' @
   ''code --install-extension ms-vscode-remote.remote-ssh\<newline>'' @
   ''```\<newline>'' @
   ''\<newline>'' @
   ''---\<newline>'' @
   ''\<newline>'' @
   ''## Basic Setup\<newline>'' @
   ''\<newline>'' @
   ''### Create SSH Key (if needed)\<newline>'' @
   ''```bash\<newline>'' @
   ''# Generate SSH key if you don't have one\<newline>'' @
   ''ssh-keygen -t rsa -b 4096 -C "your-email@example.com"\<newline>'' @
   ''```\<newline>'' @
   ''\<newline>'' @
   ''### Basic VM Commands\<newline>'' @
   ''```bash\<newline>'' @
   ''# List available Ubuntu images\<newline>'' @
   ''multipass find\<newline>'' @
   ''\<newline>'' @
   ''# Launch a basic VM\<newline>'' @
   ''multipass launch --name test-vm --cpus 2 --memory 4G --disk 20G\<newline>'' @
   ''\<newline>'' @
   ''# List running VMs\<newline>'' @
   ''multipass list\<newline>'' @
   ''\<newline>'' @
   ''# Get VM information\<newline>'' @
   ''multipass info test-vm\<newline>'' @
   ''\<newline>'' @
   ''# Execute commands in VM\<newline>'' @
   ''multipass exec test-vm -- uname -a\<newline>'' @
   ''\<newline>'' @
   ''# Get shell access\<newline>'' @
   ''multipass shell test-vm\<newline>'' @
   ''\<newline>'' @
   ''# Stop/Start/Delete VMs\<newline>'' @
   ''multipass stop test-vm\<newline>'' @
   ''multipass start test-vm\<newline>'' @
   ''multipass delete test-vm\<newline>'' @
   ''multipass purge  # Permanently remove deleted VMs\<newline>'' @
   ''```\<newline>'' @
   ''\<newline>'' @
   ''---\<newline>'' @
   ''\<newline>'' @
   ''## VM Configuration with Podman\<newline>'' @
   ''\<newline>'' @
   ''### Create Cloud-Init Configuration\<newline>'' @
   ''Create a file called `podman-setup.yaml`:\<newline>'' @
   ''\<newline>'' @
   ''```yaml\<newline>'' @
   ''#cloud-config\<newline>'' @
   ''package_update: true\<newline>'' @
   ''packages:\<newline>'' @
   ''  - podman\<newline>'' @
   ''  - podman-compose\<newline>'' @
   ''  - git\<newline>'' @
   ''  - curl\<newline>'' @
   ''  - vim\<newline>'' @
   ''\<newline>'' @
   ''users:\<newline>'' @
   ''  - name: ubuntu\<newline>'' @
   ''    groups: sudo\<newline>'' @
   ''    shell: /bin/bash\<newline>'' @
   ''    sudo: ['ALL=(ALL) NOPASSWD:ALL']\<newline>'' @
   ''\<newline>'' @
   ''runcmd:\<newline>'' @
   ''  # Enable podman socket for rootless operation\<newline>'' @
   ''  - systemctl --user enable podman.socket --now\<newline>'' @
   ''  - loginctl enable-linger ubuntu\<newline>'' @
   ''\<newline>'' @
   ''  # Create workspace directory\<newline>'' @
   ''  - mkdir -p /home/ubuntu/workspace\<newline>'' @
   ''  - chown ubuntu:ubuntu /home/ubuntu/workspace\<newline>'' @
   ''\<newline>'' @
   ''write_files:\<newline>'' @
   ''  - path: /home/ubuntu/.bashrc_append\<newline>'' @
   ''    content: |\<newline>'' @
   ''      # Podman aliases for Docker-like experience\<newline>'' @
   ''      alias docker='podman'\<newline>'' @
   ''      alias docker-compose='podman-compose'\<newline>'' @
   ''    append: true\<newline>'' @
   ''    owner: ubuntu:ubuntu\<newline>'' @
   ''\<newline>'' @
   ''final_message: "VM setup complete! Podman is ready for rootless containers."\<newline>'' @
   ''```\<newline>'' @
   ''\<newline>'' @
   ''### Launch VM with Configuration\<newline>'' @
   ''```bash\<newline>'' @
   ''# Launch VM with Podman setup\<newline>'' @
   ''multipass launch --name dev-vm --cpus 2 --memory 4G --disk 20G --cloud-init podman-setup.yaml\<newline>'' @
   ''\<newline>'' @
   ''# Wait for cloud-init to complete (check status)\<newline>'' @
   ''multipass exec dev-vm -- cloud-init status --wait\<newline>'' @
   ''```\<newline>'' @
   ''\<newline>'' @
   ''---\<newline>'' @
   ''\<newline>'' @
   ''## VSCode Integration\<newline>'' @
   ''\<newline>'' @
   ''### Configure SSH Access\<newline>'' @
   ''```bash\<newline>'' @
   ''# Get VM IP address\<newline>'' @
   ''VM_IP=$(multipass info dev-vm | grep IPv4 | awk '{print $2}')\<newline>'' @
   ''echo "VM IP: $VM_IP"\<newline>'' @
   ''\<newline>'' @
   ''# Copy SSH key to VM\<newline>'' @
   ''multipass exec dev-vm -- bash -c "mkdir -p ~/.ssh && echo '$(cat ~/.ssh/id_rsa.pub)' >> ~/.ssh/authorized_keys"\<newline>'' @
   ''```\<newline>'' @
   ''\<newline>'' @
   ''### Add SSH Config\<newline>'' @
   ''Add to your `~/.ssh/config`:\<newline>'' @
   ''```bash\<newline>'' @
   ''Host dev-vm\<newline>'' @
   ''  HostName 192.168.64.X  # Replace with your VM's IP\<newline>'' @
   ''  User ubuntu\<newline>'' @
   ''  IdentityFile ~/.ssh/id_rsa\<newline>'' @
   ''  ServerAliveInterval 120\<newline>'' @
   ''```\<newline>'' @
   ''\<newline>'' @
   ''### Connect VSCode\<newline>'' @
   ''```bash\<newline>'' @
   ''# Open VSCode and connect to VM\<newline>'' @
   ''# Cmd+Shift+P '' @ rightwards_arrow @ '' "Remote-SSH: Connect to Host" '' @ rightwards_arrow @ '' Select "dev-vm"\<newline>'' @
   ''# Or use command line:\<newline>'' @
   ''code --remote ssh-remote+dev-vm /home/ubuntu/workspace\<newline>'' @
   ''```\<newline>'' @
   ''\<newline>'' @
   ''---\<newline>'' @
   ''\<newline>'' @
   ''## Common Operations\<newline>'' @
   ''\<newline>'' @
   ''### File Mounting (VM '' @ left_right_arrow @ '' Host)\<newline>'' @
   ''```bash\<newline>'' @
   ''# Create host directory for VM data\<newline>'' @
   ''mkdir -p ~/multipass-vms/dev-vm\<newline>'' @
   ''\<newline>'' @
   ''# Mount VM directory to host (for accessing VM files from macOS)\<newline>'' @
   ''multipass mount dev-vm:/home/ubuntu/workspace ~/multipass-vms/dev-vm\<newline>'' @
   ''\<newline>'' @
   ''# Mount host directory to VM (for sharing files from macOS to VM)\<newline>'' @
   ''multipass mount ~/projects dev-vm:/home/ubuntu/host-projects\<newline>'' @
   ''\<newline>'' @
   ''# List active mounts\<newline>'' @
   ''multipass info dev-vm | grep Mounts\<newline>'' @
   ''```\<newline>'' @
   ''\<newline>'' @
   ''### Container Management in VM\<newline>'' @
   ''```bash\<newline>'' @
   ''# Run a simple container\<newline>'' @
   ''multipass exec dev-vm -- podman run --rm -it ubuntu:22.04 echo "Hello from container"\<newline>'' @
   ''\<newline>'' @
   ''# Run PostgreSQL container\<newline>'' @
   ''multipass exec dev-vm -- podman run -d '' @ backslash @ ''\<newline>'' @
   ''  --name postgres '' @ backslash @ ''\<newline>'' @
   ''  -e POSTGRES_PASSWORD=mysecret '' @ backslash @ ''\<newline>'' @
   ''  -v pgdata:/var/lib/postgresql/data '' @ backslash @ ''\<newline>'' @
   ''  -p 5432:5432 '' @ backslash @ ''\<newline>'' @
   ''  postgres:15\<newline>'' @
   ''\<newline>'' @
   ''# List running containers\<newline>'' @
   ''multipass exec dev-vm -- podman ps\<newline>'' @
   ''\<newline>'' @
   ''# View container logs\<newline>'' @
   ''multipass exec dev-vm -- podman logs postgres\<newline>'' @
   ''\<newline>'' @
   ''# Stop and remove container\<newline>'' @
   ''multipass exec dev-vm -- podman stop postgres\<newline>'' @
   ''multipass exec dev-vm -- podman rm postgres\<newline>'' @
   ''```\<newline>'' @
   ''\<newline>'' @
   ''---\<newline>'' @
   ''\<newline>'' @
   ''## Example Workflows\<newline>'' @
   ''\<newline>'' @
   ''### Workflow 1: Development Environment with Database\<newline>'' @
   ''\<newline>'' @
   ''#### 1. Create VM Configuration (`dev-env.yaml`)\<newline>'' @
   ''```yaml\<newline>'' @
   ''#cloud-config\<newline>'' @
   ''package_update: true\<newline>'' @
   ''packages:\<newline>'' @
   ''  - podman\<newline>'' @
   ''  - podman-compose\<newline>'' @
   ''  - nodejs\<newline>'' @
   ''  - npm\<newline>'' @
   ''  - git\<newline>'' @
   ''\<newline>'' @
   ''write_files:\<newline>'' @
   ''  - path: /home/ubuntu/docker-compose.yml\<newline>'' @
   ''    content: |\<newline>'' @
   ''      version: '3.8'\<newline>'' @
   ''      services:\<newline>'' @
   ''        postgres:\<newline>'' @
   ''          image: postgres:15\<newline>'' @
   ''          environment:\<newline>'' @
   ''            POSTGRES_DB: myapp\<newline>'' @
   ''            POSTGRES_USER: developer\<newline>'' @
   ''            POSTGRES_PASSWORD: devpass123\<newline>'' @
   ''          volumes:\<newline>'' @
   ''            - pgdata:/var/lib/postgresql/data\<newline>'' @
   ''          ports:\<newline>'' @
   ''            - "5432:5432"\<newline>'' @
   ''        redis:\<newline>'' @
   ''          image: redis:7\<newline>'' @
   ''          ports:\<newline>'' @
   ''            - "6379:6379"\<newline>'' @
   ''      volumes:\<newline>'' @
   ''        pgdata:\<newline>'' @
   ''    owner: ubuntu:ubuntu\<newline>'' @
   ''\<newline>'' @
   ''runcmd:\<newline>'' @
   ''  - chown -R ubuntu:ubuntu /home/ubuntu\<newline>'' @
   ''```\<newline>'' @
   ''\<newline>'' @
   ''#### 2. Launch and Setup\<newline>'' @
   ''```bash\<newline>'' @
   ''# Launch VM\<newline>'' @
   ''multipass launch --name app-dev --cpus 4 --memory 8G --cloud-init dev-env.yaml\<newline>'' @
   ''\<newline>'' @
   ''# Wait for setup\<newline>'' @
   ''multipass exec app-dev -- cloud-init status --wait\<newline>'' @
   ''\<newline>'' @
   ''# Create host directory and mount\<newline>'' @
   ''mkdir -p ~/multipass-vms/app-dev\<newline>'' @
   ''multipass mount app-dev:/home/ubuntu/workspace ~/multipass-vms/app-dev\<newline>'' @
   ''\<newline>'' @
   ''# Start services\<newline>'' @
   ''multipass exec app-dev -- podman-compose up -d\<newline>'' @
   ''\<newline>'' @
   ''# Verify services\<newline>'' @
   ''multipass exec app-dev -- podman ps\<newline>'' @
   ''```\<newline>'' @
   ''\<newline>'' @
   ''#### 3. Connect and Develop\<newline>'' @
   ''```bash\<newline>'' @
   ''# Connect VSCode\<newline>'' @
   ''code --remote ssh-remote+app-dev /home/ubuntu/workspace\<newline>'' @
   ''\<newline>'' @
   ''# Or get shell\<newline>'' @
   ''multipass shell app-dev\<newline>'' @
   ''```\<newline>'' @
   ''\<newline>'' @
   ''### Workflow 2: Quick PostgreSQL Instance\<newline>'' @
   ''\<newline>'' @
   ''#### Create Script (`quick-postgres.sh`)\<newline>'' @
   ''```bash\<newline>'' @
   ''#!/bin/bash\<newline>'' @
   ''VM_NAME="pg-${1:-$(date +%s)}"\<newline>'' @
   ''HOST_DIR="$HOME/multipass-vms/$VM_NAME"\<newline>'' @
   ''\<newline>'' @
   ''echo "Creating PostgreSQL VM: $VM_NAME"\<newline>'' @
   ''\<newline>'' @
   ''# Launch VM\<newline>'' @
   ''multipass launch --name "$VM_NAME" --cpus 2 --memory 4G\<newline>'' @
   ''\<newline>'' @
   ''# Install Podman\<newline>'' @
   ''multipass exec "$VM_NAME" -- bash -c "\<newline>'' @
   ''  sudo apt update && sudo apt install -y podman\<newline>'' @
   ''  mkdir -p /home/ubuntu/pgdata\<newline>'' @
   ''"\<newline>'' @
   ''\<newline>'' @
   ''# Create host directory and mount\<newline>'' @
   ''mkdir -p "$HOST_DIR"\<newline>'' @
   ''multipass mount "$VM_NAME:/home/ubuntu" "$HOST_DIR"\<newline>'' @
   ''\<newline>'' @
   ''# Start PostgreSQL\<newline>'' @
   ''multipass exec "$VM_NAME" -- podman run -d '' @ backslash @ ''\<newline>'' @
   ''  --name postgres '' @ backslash @ ''\<newline>'' @
   ''  -e POSTGRES_PASSWORD=secret123 '' @ backslash @ ''\<newline>'' @
   ''  -v /home/ubuntu/pgdata:/var/lib/postgresql/data '' @ backslash @ ''\<newline>'' @
   ''  -p 5432:5432 '' @ backslash @ ''\<newline>'' @
   ''  postgres:15\<newline>'' @
   ''\<newline>'' @
   ''VM_IP=$(multipass info "$VM_NAME" | grep IPv4 | awk '{print $2}')\<newline>'' @
   ''\<newline>'' @
   ''echo "PostgreSQL VM '$VM_NAME' ready!"\<newline>'' @
   ''echo "Connection: psql -h $VM_IP -U postgres"\<newline>'' @
   ''echo "Data location: $HOST_DIR/pgdata"\<newline>'' @
   ''echo "Stop VM: multipass stop $VM_NAME"\<newline>'' @
   ''echo "Delete VM: multipass delete $VM_NAME && multipass purge"\<newline>'' @
   ''```\<newline>'' @
   ''\<newline>'' @
   ''Usage:\<newline>'' @
   ''```bash\<newline>'' @
   ''chmod +x quick-postgres.sh\<newline>'' @
   ''./quick-postgres.sh my-project\<newline>'' @
   ''```\<newline>'' @
   ''\<newline>'' @
   ''---\<newline>'' @
   ''\<newline>'' @
   ''## Management Scripts\<newline>'' @
   ''\<newline>'' @
   ''### VM Lifecycle Script (`vm-manager.sh`)\<newline>'' @
   ''```bash\<newline>'' @
   ''#!/bin/bash\<newline>'' @
   ''\<newline>'' @
   ''VM_NAME="$1"\<newline>'' @
   ''ACTION="$2"\<newline>'' @
   ''\<newline>'' @
   ''case "$ACTION" in\<newline>'' @
   ''  create)\<newline>'' @
   ''    echo "Creating VM: $VM_NAME"\<newline>'' @
   ''    multipass launch --name "$VM_NAME" --cpus 2 --memory 4G --disk 20G\<newline>'' @
   ''    multipass exec "$VM_NAME" -- sudo apt update\<newline>'' @
   ''    multipass exec "$VM_NAME" -- sudo apt install -y podman\<newline>'' @
   ''    ;;\<newline>'' @
   ''  start)\<newline>'' @
   ''    echo "Starting VM: $VM_NAME"\<newline>'' @
   ''    multipass start "$VM_NAME"\<newline>'' @
   ''    ;;\<newline>'' @
   ''  stop)\<newline>'' @
   ''    echo "Stopping VM: $VM_NAME"\<newline>'' @
   ''    multipass stop "$VM_NAME"\<newline>'' @
   ''    ;;\<newline>'' @
   ''  delete)\<newline>'' @
   ''    echo "Deleting VM: $VM_NAME"\<newline>'' @
   ''    multipass delete "$VM_NAME"\<newline>'' @
   ''    multipass purge\<newline>'' @
   ''    ;;\<newline>'' @
   ''  shell)\<newline>'' @
   ''    echo "Connecting to VM: $VM_NAME"\<newline>'' @
   ''    multipass shell "$VM_NAME"\<newline>'' @
   ''    ;;\<newline>'' @
   ''  info)\<newline>'' @
   ''    multipass info "$VM_NAME"\<newline>'' @
   ''    ;;\<newline>'' @
   ''  *)\<newline>'' @
   ''    echo "Usage: $0 <vm-name> <create|start|stop|delete|shell|info>"\<newline>'' @
   ''    ;;\<newline>'' @
   ''esac\<newline>'' @
   ''```\<newline>'' @
   ''\<newline>'' @
   ''Usage:\<newline>'' @
   ''```bash\<newline>'' @
   ''chmod +x vm-manager.sh\<newline>'' @
   ''./vm-manager.sh my-vm create\<newline>'' @
   ''./vm-manager.sh my-vm start\<newline>'' @
   ''./vm-manager.sh my-vm shell\<newline>'' @
   ''./vm-manager.sh my-vm stop\<newline>'' @
   ''```\<newline>'' @
   ''\<newline>'' @
   ''---\<newline>'' @
   ''\<newline>'' @
   ''## Troubleshooting\<newline>'' @
   ''\<newline>'' @
   ''### Common Issues\<newline>'' @
   ''\<newline>'' @
   ''#### VM Won't Start\<newline>'' @
   ''```bash\<newline>'' @
   ''# Check VM status\<newline>'' @
   ''multipass list\<newline>'' @
   ''\<newline>'' @
   ''# View VM logs\<newline>'' @
   ''multipass exec vm-name -- dmesg\<newline>'' @
   ''\<newline>'' @
   ''# Restart Multipass daemon (macOS)\<newline>'' @
   ''sudo launchctl stop com.canonical.multipass.multipassd\<newline>'' @
   ''sudo launchctl start com.canonical.multipass.multipassd\<newline>'' @
   ''```\<newline>'' @
   ''\<newline>'' @
   ''#### SSH Connection Issues\<newline>'' @
   ''```bash\<newline>'' @
   ''# Regenerate SSH key in VM\<newline>'' @
   ''multipass exec vm-name -- ssh-keygen -f ~/.ssh/id_rsa -N ""\<newline>'' @
   ''\<newline>'' @
   ''# Re-copy public key\<newline>'' @
   ''multipass exec vm-name -- bash -c "echo '$(cat ~/.ssh/id_rsa.pub)' >> ~/.ssh/authorized_keys"\<newline>'' @
   ''```\<newline>'' @
   ''\<newline>'' @
   ''#### Container Issues\<newline>'' @
   ''```bash\<newline>'' @
   ''# Check Podman status\<newline>'' @
   ''multipass exec vm-name -- systemctl --user status podman\<newline>'' @
   ''\<newline>'' @
   ''# Restart Podman service\<newline>'' @
   ''multipass exec vm-name -- systemctl --user restart podman\<newline>'' @
   ''\<newline>'' @
   ''# Check container logs\<newline>'' @
   ''multipass exec vm-name -- podman logs container-name\<newline>'' @
   ''```\<newline>'' @
   ''\<newline>'' @
   ''#### Mount Issues\<newline>'' @
   ''```bash\<newline>'' @
   ''# Unmount and remount\<newline>'' @
   ''multipass umount vm-name\<newline>'' @
   ''multipass mount vm-name:/path/to/source ~/local/path\<newline>'' @
   ''\<newline>'' @
   ''# Check mount permissions\<newline>'' @
   ''multipass exec vm-name -- ls -la /mounted/path\<newline>'' @
   ''```\<newline>'' @
   ''\<newline>'' @
   ''### Performance Tips\<newline>'' @
   ''\<newline>'' @
   ''1. **Resource Allocation**: Start with 2 CPUs and 4GB RAM, adjust based on workload\<newline>'' @
   ''2. **Disk Space**: Use at least 20GB for development VMs\<newline>'' @
   ''3. **Multiple VMs**: Stop unused VMs to save resources\<newline>'' @
   ''4. **Container Storage**: Use volumes for persistent data\<newline>'' @
   ''\<newline>'' @
   ''### Cleaning Up\<newline>'' @
   ''```bash\<newline>'' @
   ''# Stop all VMs\<newline>'' @
   ''multipass list | grep Running | awk '{print $1}' | xargs -I {} multipass stop {}\<newline>'' @
   ''\<newline>'' @
   ''# Delete all VMs\<newline>'' @
   ''multipass delete --all\<newline>'' @
   ''multipass purge\<newline>'' @
   ''\<newline>'' @
   ''# Clean up host directories\<newline>'' @
   ''rm -rf ~/multipass-vms/*\<newline>'' @
   ''```\<newline>'' @
   ''\<newline>'' @
   ''---\<newline>'' @
   ''\<newline>'' @
   ''## Quick Reference\<newline>'' @
   ''\<newline>'' @
   ''### Essential Commands\<newline>'' @
   ''```bash\<newline>'' @
   ''# VM Management\<newline>'' @
   ''multipass launch --name NAME\<newline>'' @
   ''multipass list\<newline>'' @
   ''multipass info NAME\<newline>'' @
   ''multipass shell NAME\<newline>'' @
   ''multipass stop/start/delete NAME\<newline>'' @
   ''\<newline>'' @
   ''# File Operations\<newline>'' @
   ''multipass mount SOURCE TARGET\<newline>'' @
   ''multipass transfer FILE VM:/path\<newline>'' @
   ''multipass umount VM\<newline>'' @
   ''\<newline>'' @
   ''# Container Operations (inside VM)\<newline>'' @
   ''podman run -d --name NAME IMAGE\<newline>'' @
   ''podman ps\<newline>'' @
   ''podman logs NAME\<newline>'' @
   ''podman stop/start/rm NAME\<newline>'' @
   ''```\<newline>'' @
   ''\<newline>'' @
   ''### Default Locations\<newline>'' @
   ''- VM Storage: `~/Library/Application Support/multipassd/`\<newline>'' @
   ''- SSH Config: `~/.ssh/config`\<newline>'' @
   ''- Cloud-init logs: `/var/log/cloud-init.log` (in VM)\<newline>'' @
   ''\<newline>'' @
   ''This guide provides everything needed to get started with Multipass for VM-based development with containerized applications.\<newline>''
\<close>

subsection \<open>The process and its environment\<close>

text \<open>
  An \<^verbatim>\<open>OSError\<close> of Python, by the subclass the interpreter raises: a missing parent
  directory is a \<^verbatim>\<open>FileNotFoundError\<close>, a lack of permission a \<^verbatim>\<open>PermissionError\<close>;
  every other failure of the operating system is an \<^verbatim>\<open>OSError\<close> with its error number
  (a full disk is number 28, too many levels of symbolic links number 40).
\<close>

datatype os_error = FileNotFoundError | PermissionError | IsADirectoryError | OSError nat

text \<open>
  The exceptions a run of the script can end with: an error of the operating system, a
  character that an encoding cannot encode, and the warning about the missing
  \<^verbatim>\<open>encoding\<close> argument of \<^verbatim>\<open>open\<close>, where the interpreter is set to raise warnings.
\<close>

datatype exn = OSErr os_error | UnicodeEncodeError | EncodingWarning

text \<open>
  A path is a directory and a name in that directory: the script passes a bare file name
  to \<^verbatim>\<open>open\<close>, which the operating system looks up in the current working directory.
  A directory is named by its own path, with no symbolic link in it, so that two paths
  with different directories are different paths; the target of a symbolic link is
  given as such a path.
\<close>

type_synonym path = "string \<times> string"

text \<open>The library calls of a run, in the order the script makes them.\<close>

datatype event =
    CallOpen path
  | CallWrite path string
  | CallClose path
  | CallPrint string

text \<open>
  How the interpreter has set up standard output: not at all (the descriptor is closed,
  \<^verbatim>\<open>sys.stdout\<close> is \<^verbatim>\<open>None\<close> and \<^verbatim>\<open>print\<close> does nothing), unbuffered, buffered by lines (a
  terminal), or buffered until the process exits (a file or a pipe).
\<close>

datatype buffering = NoStdout | Unbuffered | LineBuffered | BlockBuffered

text \<open>
  What the script cannot influence: the settings the interpreter takes from the locale,
  the environment variables and its command line, and the answers of the operating
  system.
  \<^item> \<open>open_error p\<close> is the error raised when \<open>p\<close> is opened for writing (\<open>None\<close> when
    the operating system opens it); \<open>new_inode\<close> is the number it gives a file it creates.
  \<^item> \<open>text_layer_error\<close> is an exception raised by \<^verbatim>\<open>open\<close> after the operating system
    has opened the file, while the text layer is set up.
  \<^item> \<open>file_encode\<close> is the encoding of text files (the locale's, strict: \<open>None\<close> for a
    text it cannot encode); \<open>stdout_encode\<close> is the encoding of standard output with
    its error handler.
  \<^item> \<open>write_error\<close> is \<open>Some (n, e)\<close> when a write to the file stores only its first
    \<open>n\<close> bytes and raises \<open>e\<close>; \<open>close_error\<close> is \<open>Some (n, e)\<close> when closing raises
    \<open>e\<close> and only the first \<open>n\<close> bytes written through the file object have reached
    the file, the buffered rest being lost.
  \<^item> \<open>stdout_error\<close> is the error the operating system raises when bytes are passed to
    standard output.
\<close>

record environment =
  new_inode :: nat
  open_error :: "path \<Rightarrow> os_error option"
  text_layer_error :: "exn option"
  file_encode :: "string \<Rightarrow> string option"
  write_error :: "(nat \<times> os_error) option"
  close_error :: "(nat \<times> os_error) option"
  stdout_encode :: "string \<Rightarrow> string option"
  stdout_mode :: buffering
  stdout_error :: "os_error option"

text \<open>
  The state of a run. The file system is a map of symbolic links, a map from the paths
  of regular files to the numbers of their files (two paths with one number are hard
  links of one file), and the content of each file. \<open>stdout\<close> is what has reached
  standard output, \<open>stdout_buffer\<close> what \<^verbatim>\<open>print\<close> has produced and the interpreter still
  holds; \<open>calls\<close> is the history of library calls.
\<close>

record world =
  argv :: "string list"
  cwd :: string
  env :: environment
  symlinks :: "path \<rightharpoonup> path"
  entries :: "path \<rightharpoonup> nat"
  data :: "nat \<Rightarrow> string"
  stdout :: string
  stdout_buffer :: string
  calls :: "event list"

type_synonym 'a result = "(exn + 'a) \<times> world"

text \<open>A file object: the name it was opened with, and the file it writes to.\<close>

type_synonym file_object = "path \<times> nat"

subsection \<open>The file system\<close>

text \<open>
  Following symbolic links: at most \<open>n\<close> of them; \<open>None\<close> when more would have to be
  followed (the operating system follows 40 and then gives up).
\<close>

primrec resolve :: "nat \<Rightarrow> (path \<rightharpoonup> path) \<Rightarrow> path \<Rightarrow> path option" where
  "resolve 0 ln p = (case ln p of None \<Rightarrow> Some p | Some q \<Rightarrow> None)"
| "resolve (Suc n) ln p = (case ln p of None \<Rightarrow> Some p | Some q \<Rightarrow> resolve n ln q)"

text \<open>What reading the file at a path yields: the bytes of the file the path leads to.\<close>

definition files :: "world \<Rightarrow> path \<Rightarrow> string option" where
  "files w p =
     (case resolve 40 (symlinks w) p of
        None \<Rightarrow> None
      | Some r \<Rightarrow> (case entries w r of None \<Rightarrow> None | Some i \<Rightarrow> Some (data w i)))"

subsection \<open>The library calls\<close>

text \<open>
  \<^verbatim>\<open>open(name, 'w')\<close>: the operating system follows symbolic links from the name, creates
  the file when there is none and empties it when there is one; then the interpreter
  sets up the text layer, which can raise when the file is already created or emptied.
\<close>

definition open_w :: "string \<Rightarrow> world \<Rightarrow> file_object result" where
  "open_w name w =
     (let p = (cwd w, name);
          w1 = w\<lparr>calls := calls w @ [CallOpen p]\<rparr>
      in case open_error (env w) p of
           Some e \<Rightarrow> (Inl (OSErr e), w1)
         | None \<Rightarrow>
             (case resolve 40 (symlinks w) p of
                None \<Rightarrow> (Inl (OSErr (OSError 40)), w1)
              | Some r \<Rightarrow>
                  (let i = (case entries w r of None \<Rightarrow> new_inode (env w) | Some j \<Rightarrow> j);
                       w2 = w1\<lparr>entries := (entries w)(r \<mapsto> i), data := (data w)(i := [])\<rparr>
                   in case text_layer_error (env w) of
                        Some x \<Rightarrow> (Inl x, w2)
                      | None \<Rightarrow> (Inr (p, i), w2))))"

text \<open>
  \<^verbatim>\<open>f.write(s)\<close>: the text is encoded, and the bytes go after what the file object has
  written so far. The script discards the count that \<^verbatim>\<open>write\<close> returns.
\<close>

definition file_write :: "file_object \<Rightarrow> string \<Rightarrow> world \<Rightarrow> unit result" where
  "file_write f s w =
     (let i = snd f;
          w1 = w\<lparr>calls := calls w @ [CallWrite (fst f) s]\<rparr>
      in case file_encode (env w) s of
           None \<Rightarrow> (Inl UnicodeEncodeError, w1)
         | Some b \<Rightarrow>
             (case write_error (env w) of
                Some (n, e) \<Rightarrow> (Inl (OSErr e), w1\<lparr>data := (data w)(i := data w i @ take n b)\<rparr>)
              | None \<Rightarrow> (Inr (), w1\<lparr>data := (data w)(i := data w i @ b)\<rparr>)))"

definition file_close :: "file_object \<Rightarrow> world \<Rightarrow> unit result" where
  "file_close f w =
     (let i = snd f;
          w1 = w\<lparr>calls := calls w @ [CallClose (fst f)]\<rparr>
      in case close_error (env w) of
           Some (n, e) \<Rightarrow> (Inl (OSErr e), w1\<lparr>data := (data w)(i := take n (data w i))\<rparr>)
         | None \<Rightarrow> (Inr (), w1))"

text \<open>
  \<^verbatim>\<open>with open(name, 'w') as f: body\<close>. When \<^verbatim>\<open>open\<close> raises, the body does not run. The
  file is closed when the body ends, also when it ends by an exception; an exception of
  the close replaces the one of the body.
\<close>

definition with_open_w :: "string \<Rightarrow> (file_object \<Rightarrow> world \<Rightarrow> unit result) \<Rightarrow> world \<Rightarrow> unit result" where
  "with_open_w name body w =
     (case open_w name w of
        (Inl e, w1) \<Rightarrow> (Inl e, w1)
      | (Inr f, w1) \<Rightarrow>
          (case body f w1 of
             (Inr u, w2) \<Rightarrow> file_close f w2
           | (Inl e, w2) \<Rightarrow>
               (case file_close f w2 of
                  (Inl e', w3) \<Rightarrow> (Inl e', w3)
                | (Inr u, w3) \<Rightarrow> (Inl e, w3))))"

text \<open>
  Standard output. Passing the buffered bytes on fails when the operating system
  refuses them; the bytes then stay in the buffer.
\<close>

definition stdout_flush :: "world \<Rightarrow> unit result" where
  "stdout_flush w =
     (if stdout_buffer w = [] then (Inr (), w)
      else case stdout_error (env w) of
             Some e \<Rightarrow> (Inl (OSErr e), w)
           | None \<Rightarrow> (Inr (), w\<lparr>stdout := stdout w @ stdout_buffer w, stdout_buffer := []\<rparr>))"

text \<open>
  \<^verbatim>\<open>sys.stdout.write(t)\<close>: the text is encoded. An unbuffered stream passes the bytes
  on at once, after anything it still holds, and drops them when that fails; a buffered
  stream keeps them in the buffer, which a line-buffered stream passes on when the text
  holds a newline or a carriage return.
\<close>

definition stdout_write :: "string \<Rightarrow> world \<Rightarrow> unit result" where
  "stdout_write t w =
     (case stdout_encode (env w) t of
        None \<Rightarrow> (Inl UnicodeEncodeError, w)
      | Some b \<Rightarrow>
          (case stdout_mode (env w) of
             NoStdout \<Rightarrow> (Inr (), w)
           | Unbuffered \<Rightarrow>
               (case stdout_error (env w) of
                  Some e \<Rightarrow> (Inl (OSErr e), w)
                | None \<Rightarrow>
                    (Inr (), w\<lparr>stdout := stdout w @ stdout_buffer w @ b, stdout_buffer := []\<rparr>))
           | LineBuffered \<Rightarrow>
               (let w1 = w\<lparr>stdout_buffer := stdout_buffer w @ b\<rparr>
                in if CHR 0x0A \<in> set t \<or> CHR 0x0D \<in> set t then stdout_flush w1
                   else (Inr (), w1))
           | BlockBuffered \<Rightarrow> (Inr (), w\<lparr>stdout_buffer := stdout_buffer w @ b\<rparr>)))"

text \<open>
  \<^verbatim>\<open>print(s)\<close>: nothing when there is no standard output; otherwise the text is written,
  and then a newline.
\<close>

definition py_print :: "string \<Rightarrow> world \<Rightarrow> unit result" where
  "py_print s w =
     (let w1 = w\<lparr>calls := calls w @ [CallPrint s]\<rparr>
      in if stdout_mode (env w) = NoStdout then (Inr (), w1)
         else case stdout_write s w1 of
                (Inl e, w2) \<Rightarrow> (Inl e, w2)
              | (Inr u, w2) \<Rightarrow> stdout_write ''\<newline>'' w2)"

subsection \<open>The module body\<close>

text \<open>Statements in sequence: an exception ends the sequence.\<close>

primrec seq :: "(world \<Rightarrow> unit result) list \<Rightarrow> world \<Rightarrow> unit result" where
  "seq [] w = (Inr (), w)"
| "seq (s # ss) w = (case s w of (Inl e, w') \<Rightarrow> (Inl e, w') | (Inr u, w') \<Rightarrow> seq ss w')"

text \<open>Lines 474 to 486 of the script: the \<^verbatim>\<open>with\<close> statement and the nine calls of \<^verbatim>\<open>print\<close>.\<close>

definition multipass_setup :: "world \<Rightarrow> unit result" where
  "multipass_setup =
     seq [with_open_w ''multipass_setup_guide.md'' (\<lambda>f. file_write f guide_content),
          py_print (check_mark @ '' Created comprehensive Multipass setup guide: multipass_setup_guide.md''),
          py_print ''\<newline>File contains:'',
          py_print ''- Complete installation instructions'',
          py_print ''- VM configuration with Podman'',
          py_print ''- VSCode remote development setup'',
          py_print ''- File mounting (bidirectional)'',
          py_print ''- Example workflows and scripts'',
          py_print ''- Troubleshooting section'',
          py_print ''- Quick reference commands'']"

text \<open>
  The interpreter around the module body. It sets up standard output with an empty
  buffer and runs the module body; an exception that nothing catches is reported on
  standard error, with exit status 1. At exit it passes on what standard output still
  holds; when that fails the exit status is 120.
\<close>

record outcome =
  exit_status :: nat
  reported :: "exn option"
  final :: world

definition run_script :: "world \<Rightarrow> outcome" where
  "run_script w =
     (case multipass_setup (w\<lparr>stdout_buffer := []\<rparr>) of
        (r, w1) \<Rightarrow>
          (case stdout_flush w1 of
             (fr, w2) \<Rightarrow>
               \<lparr>exit_status =
                  (case fr of
                     Inl e \<Rightarrow> 120
                   | Inr u \<Rightarrow> (case r of Inl e \<Rightarrow> 1 | Inr u \<Rightarrow> 0)),
                reported = (case r of Inl e \<Rightarrow> Some e | Inr u \<Rightarrow> None),
                final = w2\<rparr>))"

subsection \<open>Notions of the specification\<close>

text \<open>The file the specification calls the output file: the fixed name, in the working directory.\<close>

definition output_filename :: string where
  "output_filename = ''multipass_setup_guide.md''"

definition target :: "world \<Rightarrow> path" where
  "target w = (cwd w, output_filename)"

text \<open>
  The target path is writable: the operating system opens it for writing, the text layer
  is set up, and the write and the close meet no error.
\<close>

definition opens :: "world \<Rightarrow> bool" where
  "opens w \<longleftrightarrow>
     open_error (env w) (target w) = None \<and> resolve 40 (symlinks w) (target w) \<noteq> None
     \<and> text_layer_error (env w) = None"

definition writable :: "world \<Rightarrow> bool" where
  "writable w \<longleftrightarrow> opens w \<and> write_error (env w) = None \<and> close_error (env w) = None"


text \<open>The with statement of the script, and the arguments of its calls of \<^verbatim>\<open>print\<close>.\<close>

definition write_guide :: "world \<Rightarrow> unit result" where
  "write_guide = with_open_w ''multipass_setup_guide.md'' (\<lambda>f. file_write f guide_content)"

definition printed_texts :: "string list" where
  "printed_texts =
     [check_mark @ '' Created comprehensive Multipass setup guide: multipass_setup_guide.md'',
      ''\<newline>File contains:'',
      ''- Complete installation instructions'',
      ''- VM configuration with Podman'',
      ''- VSCode remote development setup'',
      ''- File mounting (bidirectional)'',
      ''- Example workflows and scripts'',
      ''- Troubleshooting section'',
      ''- Quick reference commands'']"

text \<open>The lines of the confirmation, and a text made of lines.\<close>

definition confirmation_lines :: "string list" where
  "confirmation_lines =
     [check_mark @ '' Created comprehensive Multipass setup guide: multipass_setup_guide.md'',
      '''',
      ''File contains:'',
      ''- Complete installation instructions'',
      ''- VM configuration with Podman'',
      ''- VSCode remote development setup'',
      ''- File mounting (bidirectional)'',
      ''- Example workflows and scripts'',
      ''- Troubleshooting section'',
      ''- Quick reference commands'']"

definition unlines :: "string list \<Rightarrow> string" where
  "unlines ls = concat (map (\<lambda>l. l @ ''\<newline>'') ls)"

text \<open>
  The bytes that printing a list of texts produces in an encoding: each text and a
  newline, each encoded on its own; \<open>None\<close> when one of them cannot be encoded.
\<close>

primrec printed_bytes :: "(string \<Rightarrow> string option) \<Rightarrow> string list \<Rightarrow> string option" where
  "printed_bytes enc [] = Some []"
| "printed_bytes enc (t # ts) =
     (case enc t of
        None \<Rightarrow> None
      | Some b \<Rightarrow>
          (case enc ''\<newline>'' of
             None \<Rightarrow> None
           | Some n \<Rightarrow>
               (case printed_bytes enc ts of None \<Rightarrow> None | Some r \<Rightarrow> Some (b @ n @ r))))"

text \<open>
  Standard output takes the texts: there is none, or it can encode them and the
  operating system accepts the bytes.
\<close>

definition stdout_takes :: "world \<Rightarrow> string list \<Rightarrow> bool" where
  "stdout_takes w ts \<longleftrightarrow>
     stdout_mode (env w) = NoStdout
     \<or> (stdout_error (env w) = None \<and> printed_bytes (stdout_encode (env w)) ts \<noteq> None)"

text \<open>The library calls a run adds to the history, and the paths a call names.\<close>

definition new_calls :: "world \<Rightarrow> event list" where
  "new_calls w = drop (length (calls w)) (calls (snd (multipass_setup w)))"

primrec touched :: "event \<Rightarrow> path list" where
  "touched (CallOpen p) = [p]"
| "touched (CallWrite p s) = [p]"
| "touched (CallClose p) = [p]"
| "touched (CallPrint s) = []"

text \<open>
  Summaries of the with statement, for a target that opens: the number of the file
  behind a path, the bytes the body stores, the bytes the file holds when the statement
  ends, and the exception it ends with.
\<close>

definition ino :: "world \<Rightarrow> path \<Rightarrow> nat" where
  "ino w r = (case entries w r of None \<Rightarrow> new_inode (env w) | Some j \<Rightarrow> j)"

definition body_bytes :: "environment \<Rightarrow> string" where
  "body_bytes e =
     (case file_encode e guide_content of
        None \<Rightarrow> []
      | Some b \<Rightarrow> (case write_error e of None \<Rightarrow> b | Some (n, x) \<Rightarrow> take n b))"

definition stored :: "environment \<Rightarrow> string" where
  "stored e = (case close_error e of None \<Rightarrow> body_bytes e | Some (n, x) \<Rightarrow> take n (body_bytes e))"

definition with_error :: "environment \<Rightarrow> exn option" where
  "with_error e =
     (case close_error e of
        Some (n, x) \<Rightarrow> Some (OSErr x)
      | None \<Rightarrow>
          (case file_encode e guide_content of
             None \<Rightarrow> Some UnicodeEncodeError
           | Some b \<Rightarrow> (case write_error e of None \<Rightarrow> None | Some (n, x) \<Rightarrow> Some (OSErr x))))"

text \<open>What \<^verbatim>\<open>print\<close> leaves alone: everything but standard output and the history.\<close>

definition rest_of :: "world \<Rightarrow> string list \<times> string \<times> environment \<times> (path \<rightharpoonup> path) \<times> (path \<rightharpoonup> nat) \<times> (nat \<Rightarrow> string)" where
  "rest_of w = (argv w, cwd w, env w, symlinks w, entries w, data w)"

subsection \<open>Encodings\<close>

text \<open>
  UTF-8 leaves the bytes of a text as the model holds them. ASCII encodes the
  characters below 128; with the error handler \<^verbatim>\<open>replace\<close> it writes a question mark for
  every other character (one for the lead byte of its UTF-8 form, none for the bytes
  that follow).
\<close>

definition utf8 :: "string \<Rightarrow> string option" where
  "utf8 s = Some s"

definition ascii_strict :: "string \<Rightarrow> string option" where
  "ascii_strict s = (if list_all (\<lambda>c. of_char c < (128::nat)) s then Some s else None)"

definition ascii_replace :: "string \<Rightarrow> string option" where
  "ascii_replace s =
     Some (concat (map (\<lambda>c. if of_char c < (128::nat) then [c]
                             else if (192::nat) \<le> of_char c then ''?'' else []) s))"

subsection \<open>Example states\<close>

text \<open>
  A terminal in a UTF-8 locale, with an operating system that refuses nothing; an empty
  working directory; a directory the process may not write to; a directory that holds
  an older guide and another file, the process started with the argument
  \<^verbatim>\<open>guide.md\<close>; the same with a disk that is full after five bytes, in an ASCII locale,
  with \<^verbatim>\<open>PYTHONIOENCODING=ascii:replace\<close> and with \<^verbatim>\<open>PYTHONIOENCODING=ascii\<close>, with
  standard output on a full device, with warnings raised as errors, and with the output
  name a symbolic link to the other file or to a file that does not exist.
\<close>

definition utf8_terminal :: environment where
  "utf8_terminal =
     \<lparr>new_inode = 7, open_error = (\<lambda>p. None), text_layer_error = None,
      file_encode = utf8, write_error = None, close_error = None,
      stdout_encode = utf8, stdout_mode = LineBuffered, stdout_error = None\<rparr>"

definition empty_dir :: world where
  "empty_dir =
     \<lparr>argv = [''multipass-setup.py''], cwd = ''/home/dev'', env = utf8_terminal,
      symlinks = Map.empty, entries = Map.empty, data = (\<lambda>i. []),
      stdout = [], stdout_buffer = [], calls = []\<rparr>"

definition readonly_dir :: world where
  "readonly_dir =
     empty_dir\<lparr>cwd := ''/root'', env := utf8_terminal\<lparr>open_error := (\<lambda>p. Some PermissionError)\<rparr>\<rparr>"

definition used_dir :: world where
  "used_dir =
     \<lparr>argv = [''multipass-setup.py'', ''guide.md''], cwd = ''/tmp/work'', env = utf8_terminal,
      symlinks = Map.empty,
      entries = [(''/tmp/work'', ''multipass_setup_guide.md'') \<mapsto> 1,
                 (''/tmp/work'', ''notes.txt'') \<mapsto> 2],
      data = (\<lambda>i. if i = 1 then ''an older guide'' else if i = 2 then ''keep me'' else []),
      stdout = [], stdout_buffer = [], calls = []\<rparr>"

definition full_disk :: world where
  "full_disk = used_dir\<lparr>env := utf8_terminal\<lparr>write_error := Some (5, OSError 28)\<rparr>\<rparr>"

definition ascii_locale :: world where
  "ascii_locale =
     used_dir\<lparr>env := utf8_terminal\<lparr>file_encode := ascii_strict, stdout_encode := ascii_strict\<rparr>\<rparr>"

definition ascii_replace_stdout :: world where
  "ascii_replace_stdout = used_dir\<lparr>env := utf8_terminal\<lparr>stdout_encode := ascii_replace\<rparr>\<rparr>"

definition full_stdout :: world where
  "full_stdout =
     used_dir\<lparr>env := utf8_terminal\<lparr>stdout_mode := BlockBuffered, stdout_error := Some (OSError 28)\<rparr>\<rparr>"


definition warnings_raised :: world where
  "warnings_raised = used_dir\<lparr>env := utf8_terminal\<lparr>text_layer_error := Some EncodingWarning\<rparr>\<rparr>"

definition linked_dir :: world where
  "linked_dir =
     used_dir\<lparr>symlinks := [(''/tmp/work'', ''multipass_setup_guide.md'') \<mapsto> (''/tmp/work'', ''notes.txt'')],
       entries := [(''/tmp/work'', ''notes.txt'') \<mapsto> 2]\<rparr>"

definition dangling_link :: world where
  "dangling_link =
     empty_dir\<lparr>symlinks := [(''/home/dev'', ''multipass_setup_guide.md'') \<mapsto> (''/home/other'', ''new.txt'')]\<rparr>"

section \<open>Properties of the model\<close>

subsection \<open>The with statement\<close>

lemmas with_defs = write_guide_def with_open_w_def open_w_def file_write_def file_close_def
  target_def output_filename_def Let_def

lemma write_guide_open_fails:
  assumes "open_error (env w) (target w) = Some e"
  shows "write_guide w = (Inl (OSErr e), w\<lparr>calls := calls w @ [CallOpen (target w)]\<rparr>)"
  using assms by (simp add: with_defs)

lemma write_guide_loop:
  assumes "open_error (env w) (target w) = None" "resolve 40 (symlinks w) (target w) = None"
  shows "write_guide w = (Inl (OSErr (OSError 40)), w\<lparr>calls := calls w @ [CallOpen (target w)]\<rparr>)"
  using assms by (simp add: with_defs)

lemma write_guide_text_layer:
  assumes "open_error (env w) (target w) = None" "resolve 40 (symlinks w) (target w) = Some r"
    "text_layer_error (env w) = Some x"
  shows "write_guide w =
    (Inl x, w\<lparr>entries := (entries w)(r \<mapsto> ino w r), data := (data w)(ino w r := []),
              calls := calls w @ [CallOpen (target w)]\<rparr>)"
  using assms by (simp add: with_defs ino_def)

lemma write_guide_opened:
  assumes "open_error (env w) (target w) = None" "resolve 40 (symlinks w) (target w) = Some r"
    "text_layer_error (env w) = None"
  shows "write_guide w =
    ((case with_error (env w) of Some x \<Rightarrow> Inl x | None \<Rightarrow> Inr ()),
     w\<lparr>entries := (entries w)(r \<mapsto> ino w r), data := (data w)(ino w r := stored (env w)),
       calls := calls w @ [CallOpen (target w), CallWrite (target w) guide_content,
                  CallClose (target w)]\<rparr>)"
  using assms
  by (auto simp add: with_defs ino_def stored_def body_bytes_def with_error_def
      split: option.splits prod.splits)

subsection \<open>print\<close>

lemma stdout_flush_rest [simp]:
  "rest_of (snd (stdout_flush w)) = rest_of w" "calls (snd (stdout_flush w)) = calls w"
  "stdout (snd (stdout_flush w)) @ stdout_buffer (snd (stdout_flush w)) = stdout w @ stdout_buffer w"
  by (auto simp add: stdout_flush_def rest_of_def split: option.splits)

lemma stdout_write_rest [simp]:
  "rest_of (snd (stdout_write t w)) = rest_of w" "calls (snd (stdout_write t w)) = calls w"
  by (auto simp add: stdout_write_def stdout_flush_def rest_of_def Let_def
      split: option.splits buffering.splits)

lemma stdout_write_ok:
  assumes "stdout_write t w = (Inr (), w')" "stdout_mode (env w) \<noteq> NoStdout"
  shows "\<exists>b. stdout_encode (env w) t = Some b
    \<and> stdout w' @ stdout_buffer w' = stdout w @ stdout_buffer w @ b"
  using assms
  by (auto simp add: stdout_write_def stdout_flush_def Let_def
      split: option.splits buffering.splits if_splits)

lemma stdout_write_succeeds:
  assumes "stdout_encode (env w) t = Some b" "stdout_error (env w) = None"
  shows "fst (stdout_write t w) = Inr ()"
  using assms
  by (auto simp add: stdout_write_def stdout_flush_def Let_def
      split: option.splits buffering.splits if_splits)

lemma py_print_unfold:
  "py_print s w =
     (if stdout_mode (env w) = NoStdout then (Inr (), w\<lparr>calls := calls w @ [CallPrint s]\<rparr>)
      else case stdout_write s (w\<lparr>calls := calls w @ [CallPrint s]\<rparr>) of
             (Inl e, w2) \<Rightarrow> (Inl e, w2)
           | (Inr u, w2) \<Rightarrow> stdout_write ''\<newline>'' w2)"
  by (simp add: py_print_def Let_def)

lemma py_print_rest [simp]:
  "rest_of (snd (py_print s w)) = rest_of w"
proof -
  let ?w1 = "w\<lparr>calls := calls w @ [CallPrint s]\<rparr>"
  have 1: "rest_of ?w1 = rest_of w" by (simp add: rest_of_def)
  obtain r w2 where a: "stdout_write s ?w1 = (r, w2)" by (cases "stdout_write s ?w1")
  have 2: "rest_of w2 = rest_of w" using stdout_write_rest(1) [of s ?w1] a 1 by simp
  show ?thesis
  proof (cases "stdout_mode (env w) = NoStdout")
    case True
    then show ?thesis by (simp add: py_print_unfold 1)
  next
    case False
    then show ?thesis using a 2 by (cases r) (simp_all add: py_print_unfold)
  qed
qed

lemma py_print_calls:
  "calls (snd (py_print s w)) = calls w @ [CallPrint s]"
proof -
  let ?w1 = "w\<lparr>calls := calls w @ [CallPrint s]\<rparr>"
  obtain r w2 where a: "stdout_write s ?w1 = (r, w2)" by (cases "stdout_write s ?w1")
  have 2: "calls w2 = calls w @ [CallPrint s]" using stdout_write_rest(2) [of s ?w1] a by simp
  show ?thesis
  proof (cases "stdout_mode (env w) = NoStdout")
    case True
    then show ?thesis by (simp add: py_print_unfold)
  next
    case False
    then show ?thesis using a 2 by (cases r) (simp_all add: py_print_unfold)
  qed
qed

lemma py_print_nostdout:
  assumes "stdout_mode (env w) = NoStdout"
  shows "py_print s w = (Inr (), w\<lparr>calls := calls w @ [CallPrint s]\<rparr>)"
  using assms by (simp add: py_print_unfold)

lemma py_print_ok:
  assumes "py_print s w = (Inr (), w')" "stdout_mode (env w) \<noteq> NoStdout"
  shows "\<exists>b n. stdout_encode (env w) s = Some b \<and> stdout_encode (env w) ''\<newline>'' = Some n
    \<and> stdout w' @ stdout_buffer w' = stdout w @ stdout_buffer w @ b @ n"
proof -
  let ?w1 = "w\<lparr>calls := calls w @ [CallPrint s]\<rparr>"
  obtain r w2 where a: "stdout_write s ?w1 = (r, w2)" by (cases "stdout_write s ?w1")
  have e1: "env ?w1 = env w" by simp
  have e2: "env w2 = env w"
    using stdout_write_rest(1) [of s ?w1] a by (simp add: rest_of_def)
  from assms a have r: "r = Inr ()" and b: "stdout_write ''\<newline>'' w2 = (Inr (), w')"
    by (cases r; simp add: py_print_unfold)+
  from stdout_write_ok [of s ?w1 w2] a r assms(2) obtain b where
    1: "stdout_encode (env w) s = Some b" "stdout w2 @ stdout_buffer w2 = stdout w @ stdout_buffer w @ b"
    by auto
  from stdout_write_ok [OF b] assms(2) e2 obtain n where
    2: "stdout_encode (env w) ''\<newline>'' = Some n" "stdout w' @ stdout_buffer w' = stdout w2 @ stdout_buffer w2 @ n"
    by auto
  from 1 2 show ?thesis by simp
qed

lemma py_print_succeeds:
  assumes "stdout_encode (env w) s = Some b" "stdout_encode (env w) ''\<newline>'' = Some n"
    "stdout_error (env w) = None"
  shows "fst (py_print s w) = Inr ()"
proof -
  let ?w1 = "w\<lparr>calls := calls w @ [CallPrint s]\<rparr>"
  obtain r w2 where a: "stdout_write s ?w1 = (r, w2)" by (cases "stdout_write s ?w1")
  have e2: "env w2 = env w"
    using stdout_write_rest(1) [of s ?w1] a by (simp add: rest_of_def)
  have "fst (stdout_write s ?w1) = Inr ()" using assms by (intro stdout_write_succeeds) simp_all
  with a have r: "r = Inr ()" by simp
  have "fst (stdout_write ''\<newline>'' w2) = Inr ()"
    using assms e2 by (intro stdout_write_succeeds) simp_all
  then show ?thesis using a r by (simp add: py_print_unfold)
qed

subsection \<open>The calls of print in sequence\<close>

lemma prints_rest [simp]:
  "rest_of (snd (seq (map py_print ts) w)) = rest_of w"
proof (induction ts arbitrary: w)
  case Nil
  show ?case by simp
next
  case (Cons t ts)
  obtain r w1 where a: "py_print t w = (r, w1)" by (cases "py_print t w")
  then have 1: "rest_of w1 = rest_of w" using py_print_rest [of t w] by simp
  show ?case using a 1 Cons.IH [of w1] by (cases r) simp_all
qed

lemma prints_calls:
  "\<exists>k\<le>length ts. calls (snd (seq (map py_print ts) w)) = calls w @ map CallPrint (take k ts)
     \<and> (fst (seq (map py_print ts) w) = Inr () \<longrightarrow> k = length ts)"
proof (induction ts arbitrary: w)
  case Nil
  show ?case by simp
next
  case (Cons t ts)
  obtain r w1 where a: "py_print t w = (r, w1)" by (cases "py_print t w")
  then have 1: "calls w1 = calls w @ [CallPrint t]" using py_print_calls [of t w] by simp
  show ?case
  proof (cases r)
    case (Inl e)
    with a 1 have "calls (snd (seq (map py_print (t # ts)) w)) = calls w @ map CallPrint (take 1 (t # ts))"
      "fst (seq (map py_print (t # ts)) w) \<noteq> Inr ()"
      by simp_all
    then show ?thesis by (intro exI [of _ 1]) simp
  next
    case (Inr u)
    from Cons.IH [of w1] obtain k where
      k: "k \<le> length ts" "calls (snd (seq (map py_print ts) w1)) = calls w1 @ map CallPrint (take k ts)"
        "fst (seq (map py_print ts) w1) = Inr () \<longrightarrow> k = length ts"
      by blast
    with a 1 Inr show ?thesis by (intro exI [of _ "Suc k"]) simp
  qed
qed

lemma prints_nostdout:
  assumes "stdout_mode (env w) = NoStdout"
  shows "seq (map py_print ts) w = (Inr (), w\<lparr>calls := calls w @ map CallPrint ts\<rparr>)"
  using assms
proof (induction ts arbitrary: w)
  case Nil
  show ?case by simp
next
  case (Cons t ts)
  then show ?case by (simp add: py_print_nostdout)
qed

lemma prints_ok:
  assumes "fst (seq (map py_print ts) w) = Inr ()" "stdout_mode (env w) \<noteq> NoStdout"
  shows "\<exists>out. printed_bytes (stdout_encode (env w)) ts = Some out
    \<and> stdout (snd (seq (map py_print ts) w)) @ stdout_buffer (snd (seq (map py_print ts) w))
        = stdout w @ stdout_buffer w @ out"
  using assms
proof (induction ts arbitrary: w)
  case Nil
  show ?case by simp
next
  case (Cons t ts)
  obtain r w1 where a: "py_print t w = (r, w1)" by (cases "py_print t w")
  with Cons.prems(1) have r: "r = Inr ()" by (cases r) simp_all
  have e: "env w1 = env w" using py_print_rest [of t w] a by (simp add: rest_of_def)
  from a r Cons.prems(1) have s: "fst (seq (map py_print ts) w1) = Inr ()" by simp
  from py_print_ok [of t w w1] a r Cons.prems(2) obtain b n where
    1: "stdout_encode (env w) t = Some b" "stdout_encode (env w) ''\<newline>'' = Some n"
      "stdout w1 @ stdout_buffer w1 = stdout w @ stdout_buffer w @ b @ n"
    by auto
  from Cons.IH [OF s] Cons.prems(2) e obtain out where
    2: "printed_bytes (stdout_encode (env w)) ts = Some out"
      "stdout (snd (seq (map py_print ts) w1)) @ stdout_buffer (snd (seq (map py_print ts) w1))
        = stdout w1 @ stdout_buffer w1 @ out"
    by auto
  from 1 2 a r show ?case by simp
qed

lemma prints_succeed:
  assumes "printed_bytes (stdout_encode (env w)) ts \<noteq> None" "stdout_error (env w) = None"
  shows "fst (seq (map py_print ts) w) = Inr ()"
  using assms
proof (induction ts arbitrary: w)
  case Nil
  show ?case by simp
next
  case (Cons t ts)
  from Cons.prems(1) obtain b n where
    1: "stdout_encode (env w) t = Some b" "stdout_encode (env w) ''\<newline>'' = Some n"
      "printed_bytes (stdout_encode (env w)) ts \<noteq> None"
    by (auto split: option.splits)
  obtain r w1 where a: "py_print t w = (r, w1)" by (cases "py_print t w")
  have r: "r = Inr ()" using py_print_succeeds [OF 1(1,2) Cons.prems(2)] a by simp
  have e: "env w1 = env w" using py_print_rest [of t w] a by (simp add: rest_of_def)
  from Cons.IH [of w1] 1(3) Cons.prems(2) e have "fst (seq (map py_print ts) w1) = Inr ()" by simp
  with a r show ?case by simp
qed

subsection \<open>The module body\<close>

lemma multipass_setup_unfold:
  "multipass_setup w =
     (case write_guide w of
        (Inl e, w1) \<Rightarrow> (Inl e, w1)
      | (Inr u, w1) \<Rightarrow> seq (map py_print printed_texts) w1)"
proof -
  have m: "multipass_setup = seq (write_guide # map py_print printed_texts)"
    by (simp add: multipass_setup_def write_guide_def printed_texts_def)
  show ?thesis unfolding m by simp
qed

lemma open_cases:
  obtains (open_fails) e where "open_error (env w) (target w) = Some e"
  | (loop) "open_error (env w) (target w) = None" "resolve 40 (symlinks w) (target w) = None"
  | (text_layer) r x where "open_error (env w) (target w) = None"
      "resolve 40 (symlinks w) (target w) = Some r" "text_layer_error (env w) = Some x"
  | (opened) r where "open_error (env w) (target w) = None"
      "resolve 40 (symlinks w) (target w) = Some r" "text_layer_error (env w) = None"
proof (cases "open_error (env w) (target w)")
  case (Some e)
  then show ?thesis by (rule open_fails)
next
  case None
  note op = this
  show ?thesis
  proof (cases "resolve 40 (symlinks w) (target w)")
    case None
    with op show ?thesis by (rule loop)
  next
    case (Some r)
    note rs = this
    show ?thesis
    proof (cases "text_layer_error (env w)")
      case None
      with op rs show ?thesis by (rule opened)
    next
      case (Some x)
      with op rs show ?thesis by (rule text_layer)
    qed
  qed
qed

lemma write_guide_frame [simp]:
  "argv (snd (write_guide w)) = argv w" "cwd (snd (write_guide w)) = cwd w"
  "env (snd (write_guide w)) = env w" "symlinks (snd (write_guide w)) = symlinks w"
  "stdout (snd (write_guide w)) = stdout w" "stdout_buffer (snd (write_guide w)) = stdout_buffer w"
  by (cases w rule: open_cases;
      simp add: write_guide_open_fails write_guide_loop write_guide_text_layer write_guide_opened)+

lemma files_rest: "rest_of w' = rest_of w \<Longrightarrow> files w' = files w"
  by (rule ext) (simp add: rest_of_def files_def split: option.splits)

lemma multipass_setup_rest [simp]:
  "rest_of (snd (multipass_setup w)) = rest_of (snd (write_guide w))"
proof -
  obtain r w1 where a: "write_guide w = (r, w1)" by (cases "write_guide w")
  then show ?thesis by (cases r) (simp_all add: multipass_setup_unfold)
qed

lemma multipass_setup_with_fails:
  assumes "fst (write_guide w) = Inl x"
  shows "multipass_setup w = (Inl x, snd (write_guide w))"
  using assms by (cases "write_guide w") (simp add: multipass_setup_unfold)

lemma multipass_setup_with_ok:
  assumes "fst (write_guide w) = Inr ()"
  shows "multipass_setup w = seq (map py_print printed_texts) (snd (write_guide w))"
  using assms by (cases "write_guide w") (simp add: multipass_setup_unfold)

lemma multipass_setup_ok_with_ok:
  assumes "fst (multipass_setup w) = Inr ()"
  shows "fst (write_guide w) = Inr ()"
proof (cases "fst (write_guide w)")
  case (Inl x)
  with assms show ?thesis by (simp add: multipass_setup_with_fails)
next
  case (Inr u)
  then show ?thesis by simp
qed

lemma write_guide_ok_iff:
  "fst (write_guide w) = Inr () \<longleftrightarrow> opens w \<and> with_error (env w) = None"
  by (cases w rule: open_cases)
    (auto simp add: write_guide_open_fails write_guide_loop write_guide_text_layer write_guide_opened
      opens_def split: option.splits)

lemma with_error_None_iff:
  "with_error e = None \<longleftrightarrow>
     file_encode e guide_content \<noteq> None \<and> write_error e = None \<and> close_error e = None"
  by (auto simp add: with_error_def split: option.splits)


lemma ino_buffer [simp]: "ino (w\<lparr>stdout_buffer := b\<rparr>) r = ino w r"
  by (simp add: ino_def split: option.splits)

lemma write_guide_buffer:
  "write_guide (w\<lparr>stdout_buffer := b\<rparr>) =
     (fst (write_guide w), (snd (write_guide w))\<lparr>stdout_buffer := b\<rparr>)"
proof (cases w rule: open_cases)
  case (open_fails e)
  then show ?thesis by (simp add: write_guide_open_fails target_def)
next
  case loop
  then show ?thesis by (simp add: write_guide_loop target_def)
next
  case (text_layer r x)
  then show ?thesis by (simp add: write_guide_text_layer target_def)
next
  case (opened r)
  then show ?thesis by (simp add: write_guide_opened target_def)
qed

subsection \<open>The file system after the with statement\<close>

lemma write_guide_open_error_fs:
  assumes "open_error (env w) (target w) = Some e"
  shows "rest_of (snd (write_guide w)) = rest_of w"
  using assms by (simp add: write_guide_open_fails rest_of_def)




lemma files_calls [simp]: "files (w\<lparr>calls := c\<rparr>) = files w"
  by (rule ext) (simp add: files_def split: option.splits)


subsection \<open>The process\<close>

lemma stdout_flush_ok:
  assumes "fst (stdout_flush w) = Inr ()"
  shows "stdout (snd (stdout_flush w)) = stdout w @ stdout_buffer w"
    "stdout_buffer (snd (stdout_flush w)) = []"
  using assms by (auto simp add: stdout_flush_def split: if_splits option.splits)

lemma stdout_flush_succeeds:
  assumes "stdout_error (env w) = None \<or> stdout_buffer w = []"
  shows "fst (stdout_flush w) = Inr ()"
  using assms by (auto simp add: stdout_flush_def)

lemma run_script_unfold:
  "run_script w =
     \<lparr>exit_status =
        (case fst (stdout_flush (snd (multipass_setup (w\<lparr>stdout_buffer := []\<rparr>)))) of
           Inl e \<Rightarrow> 120
         | Inr u \<Rightarrow> (case fst (multipass_setup (w\<lparr>stdout_buffer := []\<rparr>)) of Inl e \<Rightarrow> 1 | Inr u \<Rightarrow> 0)),
      reported = (case fst (multipass_setup (w\<lparr>stdout_buffer := []\<rparr>)) of Inl e \<Rightarrow> Some e | Inr u \<Rightarrow> None),
      final = snd (stdout_flush (snd (multipass_setup (w\<lparr>stdout_buffer := []\<rparr>))))\<rparr>"
  by (cases "multipass_setup (w\<lparr>stdout_buffer := []\<rparr>)";
      cases "stdout_flush (snd (multipass_setup (w\<lparr>stdout_buffer := []\<rparr>)))")
    (simp add: run_script_def split: sum.splits)

lemma rest_of_buffer [simp]: "rest_of (w\<lparr>stdout_buffer := b\<rparr>) = rest_of w"
  by (simp add: rest_of_def)

lemma run_script_rest [simp]:
  "rest_of (final (run_script w)) = rest_of (snd (write_guide w))"
  by (simp add: run_script_unfold write_guide_buffer)

lemma exit_0_iff:
  "exit_status (run_script w) = 0 \<longleftrightarrow>
     fst (multipass_setup (w\<lparr>stdout_buffer := []\<rparr>)) = Inr ()
     \<and> fst (stdout_flush (snd (multipass_setup (w\<lparr>stdout_buffer := []\<rparr>)))) = Inr ()"
  by (auto simp add: run_script_unfold split: sum.splits)

lemma with_fails_run:
  assumes "fst (write_guide w) = Inl x"
  shows "fst (multipass_setup w) = Inl x" "reported (run_script w) = Some x"
    "exit_status (run_script w) = 1" "stdout (final (run_script w)) = stdout w"
    "calls (snd (multipass_setup w)) = calls (snd (write_guide w))"
proof -
  let ?w0 = "w\<lparr>stdout_buffer := []\<rparr>"
  from assms have 0: "fst (write_guide ?w0) = Inl x" by (simp add: write_guide_buffer)
  have m0: "multipass_setup ?w0 = (Inl x, snd (write_guide ?w0))"
    by (rule multipass_setup_with_fails [OF 0])
  have f: "stdout_flush (snd (write_guide ?w0)) = (Inr (), snd (write_guide ?w0))"
    by (simp add: stdout_flush_def)
  show "fst (multipass_setup w) = Inl x" "calls (snd (multipass_setup w)) = calls (snd (write_guide w))"
    using assms by (simp_all add: multipass_setup_with_fails)
  show "reported (run_script w) = Some x" "exit_status (run_script w) = 1"
    "stdout (final (run_script w)) = stdout w"
    by (simp_all add: run_script_unfold m0 f)
qed

lemma multipass_setup_calls_ok:
  assumes "fst (multipass_setup w) = Inr ()"
  shows "calls (snd (multipass_setup w)) =
    calls w @ [CallOpen (target w), CallWrite (target w) guide_content, CallClose (target w)]
      @ map CallPrint printed_texts"
proof -
  from assms have ok: "fst (write_guide w) = Inr ()" by (rule multipass_setup_ok_with_ok)
  then obtain r where r: "open_error (env w) (target w) = None"
    "resolve 40 (symlinks w) (target w) = Some r" "text_layer_error (env w) = None"
    by (auto simp add: write_guide_ok_iff opens_def)
  have c: "calls (snd (write_guide w)) =
      calls w @ [CallOpen (target w), CallWrite (target w) guide_content, CallClose (target w)]"
    by (simp add: write_guide_opened [OF r])
  from prints_calls [of printed_texts "snd (write_guide w)"] assms ok c show ?thesis
    by (auto simp add: multipass_setup_with_ok)
qed

lemma new_calls_shape:
  "new_calls w = [CallOpen (target w)]
   \<or> (\<exists>k. new_calls w =
        [CallOpen (target w), CallWrite (target w) guide_content, CallClose (target w)]
          @ map CallPrint (take k printed_texts))"
proof (cases "fst (write_guide w)")
  case (Inl x)
  then have m: "calls (snd (multipass_setup w)) = calls (snd (write_guide w))"
    by (rule with_fails_run)
  show ?thesis
  proof (cases w rule: open_cases)
    case (open_fails e)
    then show ?thesis by (simp add: new_calls_def m write_guide_open_fails)
  next
    case loop
    then show ?thesis by (simp add: new_calls_def m write_guide_loop)
  next
    case (text_layer r x)
    then show ?thesis by (simp add: new_calls_def m write_guide_text_layer)
  next
    case (opened r)
    have "new_calls w = [CallOpen (target w), CallWrite (target w) guide_content, CallClose (target w)]
        @ map CallPrint (take 0 printed_texts)"
      by (simp add: new_calls_def m write_guide_opened [OF opened])
    then show ?thesis by blast
  qed
next
  case (Inr u)
  then have ok: "fst (write_guide w) = Inr ()" by simp
  then obtain r where r: "open_error (env w) (target w) = None"
    "resolve 40 (symlinks w) (target w) = Some r" "text_layer_error (env w) = None"
    by (auto simp add: write_guide_ok_iff opens_def)
  have c: "calls (snd (write_guide w)) =
      calls w @ [CallOpen (target w), CallWrite (target w) guide_content, CallClose (target w)]"
    by (simp add: write_guide_opened [OF r])
  from prints_calls [of printed_texts "snd (write_guide w)"] obtain k where
    "calls (snd (seq (map py_print printed_texts) (snd (write_guide w))))
      = calls (snd (write_guide w)) @ map CallPrint (take k printed_texts)"
    by blast
  then have "new_calls w = [CallOpen (target w), CallWrite (target w) guide_content, CallClose (target w)]
        @ map CallPrint (take k printed_texts)"
    by (simp add: new_calls_def multipass_setup_with_ok [OF ok] c)
  then show ?thesis by blast
qed

lemma touched_prints: "concat (map touched (map CallPrint ts)) = []"
  by (induction ts) simp_all

lemma touched_new_calls: "set (concat (map touched (new_calls w))) = {target w}"
  using new_calls_shape [of w] by (auto simp add: touched_prints simp del: map_map)

subsection \<open>The output of a run that exits with status 0\<close>

lemma run_output:
  assumes "exit_status (run_script w) = 0"
  shows "stdout_mode (env w) = NoStdout \<longrightarrow> stdout (final (run_script w)) = stdout w"
    and "stdout_mode (env w) \<noteq> NoStdout \<longrightarrow>
      (\<exists>out. printed_bytes (stdout_encode (env w)) printed_texts = Some out
        \<and> stdout (final (run_script w)) = stdout w @ out)"
proof -
  let ?w0 = "w\<lparr>stdout_buffer := []\<rparr>"
  let ?w1 = "snd (write_guide ?w0)"
  let ?w2 = "snd (multipass_setup ?w0)"
  from assms have m: "fst (multipass_setup ?w0) = Inr ()" and f: "fst (stdout_flush ?w2) = Inr ()"
    by (simp_all add: exit_0_iff)
  from m have ok: "fst (write_guide ?w0) = Inr ()" by (rule multipass_setup_ok_with_ok)
  have w2: "?w2 = snd (seq (map py_print printed_texts) ?w1)"
    by (simp add: multipass_setup_with_ok [OF ok])
  have p: "fst (seq (map py_print printed_texts) ?w1) = Inr ()"
    using m by (simp add: multipass_setup_with_ok [OF ok])
  have fin: "stdout (final (run_script w)) = stdout ?w2 @ stdout_buffer ?w2"
    using stdout_flush_ok(1) [OF f] by (simp add: run_script_unfold)
  show "stdout_mode (env w) = NoStdout \<longrightarrow> stdout (final (run_script w)) = stdout w"
  proof
    assume "stdout_mode (env w) = NoStdout"
    then have "stdout_mode (env ?w1) = NoStdout" by simp
    from prints_nostdout [OF this, of printed_texts] show "stdout (final (run_script w)) = stdout w"
      by (simp add: fin w2)
  qed
  show "stdout_mode (env w) \<noteq> NoStdout \<longrightarrow>
      (\<exists>out. printed_bytes (stdout_encode (env w)) printed_texts = Some out
        \<and> stdout (final (run_script w)) = stdout w @ out)"
  proof
    assume "stdout_mode (env w) \<noteq> NoStdout"
    then have "stdout_mode (env ?w1) \<noteq> NoStdout" by simp
    from prints_ok [OF p this] show "\<exists>out. printed_bytes (stdout_encode (env w)) printed_texts = Some out
        \<and> stdout (final (run_script w)) = stdout w @ out"
      by (simp add: fin w2)
  qed
qed

lemma run_succeeds:
  assumes "writable w" "file_encode (env w) guide_content \<noteq> None" "stdout_takes w printed_texts"
  shows "exit_status (run_script w) = 0"
proof -
  let ?w0 = "w\<lparr>stdout_buffer := []\<rparr>"
  let ?w1 = "snd (write_guide ?w0)"
  let ?w2 = "snd (multipass_setup ?w0)"
  from assms(1,2) have "fst (write_guide w) = Inr ()"
    by (simp add: write_guide_ok_iff writable_def with_error_None_iff)
  then have ok: "fst (write_guide ?w0) = Inr ()" by (simp add: write_guide_buffer)
  have w2: "multipass_setup ?w0 = seq (map py_print printed_texts) ?w1"
    by (rule multipass_setup_with_ok [OF ok])
  have b1: "stdout_buffer ?w1 = []" by simp
  have e2: "env ?w2 = env w"
    using multipass_setup_rest [of ?w0] by (simp add: rest_of_def)
  show ?thesis
  proof (cases "stdout_mode (env w) = NoStdout")
    case True
    then have n: "stdout_mode (env ?w1) = NoStdout" by simp
    have "fst (multipass_setup ?w0) = Inr ()" "stdout_buffer ?w2 = []"
      by (simp_all add: w2 prints_nostdout [OF n])
    then show ?thesis by (simp add: exit_0_iff stdout_flush_succeeds)
  next
    case False
    with assms(3) have t: "stdout_error (env w) = None"
      "printed_bytes (stdout_encode (env w)) printed_texts \<noteq> None"
      by (simp_all add: stdout_takes_def)
    have "fst (seq (map py_print printed_texts) ?w1) = Inr ()"
      using t by (intro prints_succeed) simp_all
    then have "fst (multipass_setup ?w0) = Inr ()" by (simp add: w2)
    moreover have "fst (stdout_flush ?w2) = Inr ()"
      using t(1) e2 by (intro stdout_flush_succeeds) simp
    ultimately show ?thesis by (simp add: exit_0_iff)
  qed
qed


subsection \<open>Encodings\<close>

lemma printed_bytes_utf8: "printed_bytes utf8 ts = Some (unlines ts)"
  by (induction ts) (simp_all add: utf8_def unlines_def)

lemma unlines_confirmation: "unlines printed_texts = unlines confirmation_lines"
  by (simp add: unlines_def printed_texts_def confirmation_lines_def)

lemma printed_bytes_ascii_replace:
  "printed_bytes ascii_replace printed_texts =
     Some (unlines (''? Created comprehensive Multipass setup guide: multipass_setup_guide.md''
       # tl confirmation_lines))"
  by (simp add: printed_texts_def confirmation_lines_def unlines_def ascii_replace_def check_mark_def)

lemma resolve_nolink: "ln p = None \<Longrightarrow> resolve n ln p = Some p"
  by (cases n) simp_all

lemma resolve_link: "ln p = Some q \<Longrightarrow> ln q = None \<Longrightarrow> resolve 40 ln p = Some q"
  by (simp add: eval_nat_numeral resolve_nolink)

subsection \<open>The arguments of the process\<close>

lemma stdout_flush_argv:
  "stdout_flush (w\<lparr>argv := a\<rparr>) = (fst (stdout_flush w), (snd (stdout_flush w))\<lparr>argv := a\<rparr>)"
  by (simp add: stdout_flush_def split: option.splits)

lemma stdout_write_argv:
  "stdout_write t (w\<lparr>argv := a\<rparr>) = (fst (stdout_write t w), (snd (stdout_write t w))\<lparr>argv := a\<rparr>)"
  by (simp add: stdout_write_def stdout_flush_def Let_def split: option.splits buffering.splits)

lemma py_print_argv:
  "py_print s (w\<lparr>argv := a\<rparr>) = (fst (py_print s w), (snd (py_print s w))\<lparr>argv := a\<rparr>)"
proof -
  let ?w1 = "w\<lparr>calls := calls w @ [CallPrint s]\<rparr>"
  have c: "w\<lparr>argv := a, calls := calls w @ [CallPrint s]\<rparr> = ?w1\<lparr>argv := a\<rparr>" by simp
  obtain r w2 where 1: "stdout_write s ?w1 = (r, w2)" by (cases "stdout_write s ?w1")
  then have 2: "stdout_write s (?w1\<lparr>argv := a\<rparr>) = (r, w2\<lparr>argv := a\<rparr>)"
    by (simp add: stdout_write_argv)
  show ?thesis
    by (cases r) (simp_all add: py_print_unfold c 1 2 stdout_write_argv del: world.update_convs)
qed

lemma prints_argv:
  "seq (map py_print ts) (w\<lparr>argv := a\<rparr>) =
     (fst (seq (map py_print ts) w), (snd (seq (map py_print ts) w))\<lparr>argv := a\<rparr>)"
proof (induction ts arbitrary: w)
  case Nil
  show ?case by simp
next
  case (Cons t ts)
  obtain r w1 where 1: "py_print t w = (r, w1)" by (cases "py_print t w")
  then have 2: "py_print t (w\<lparr>argv := a\<rparr>) = (r, w1\<lparr>argv := a\<rparr>)" by (simp add: py_print_argv)
  show ?case by (cases r) (simp_all add: 1 2 Cons.IH)
qed

lemma ino_argv [simp]: "ino (w\<lparr>argv := a\<rparr>) r = ino w r"
  by (simp add: ino_def split: option.splits)

lemma write_guide_argv:
  "write_guide (w\<lparr>argv := a\<rparr>) = (fst (write_guide w), (snd (write_guide w))\<lparr>argv := a\<rparr>)"
proof (cases w rule: open_cases)
  case (open_fails e)
  then show ?thesis by (simp add: write_guide_open_fails target_def)
next
  case loop
  then show ?thesis by (simp add: write_guide_loop target_def)
next
  case (text_layer r x)
  then show ?thesis by (simp add: write_guide_text_layer target_def)
next
  case (opened r)
  then show ?thesis by (simp add: write_guide_opened target_def)
qed

lemma multipass_setup_argv:
  "multipass_setup (w\<lparr>argv := a\<rparr>) =
     (fst (multipass_setup w), (snd (multipass_setup w))\<lparr>argv := a\<rparr>)"
proof -
  obtain r w1 where 1: "write_guide w = (r, w1)" by (cases "write_guide w")
  then have 2: "write_guide (w\<lparr>argv := a\<rparr>) = (r, w1\<lparr>argv := a\<rparr>)" by (simp add: write_guide_argv)
  show ?thesis by (cases r) (simp_all add: multipass_setup_unfold 1 2 prints_argv)
qed

lemma run_script_argv:
  "exit_status (run_script (w\<lparr>argv := a\<rparr>)) = exit_status (run_script w)"
  "reported (run_script (w\<lparr>argv := a\<rparr>)) = reported (run_script w)"
  "final (run_script (w\<lparr>argv := a\<rparr>)) = (final (run_script w))\<lparr>argv := a\<rparr>"
proof -
  let ?m = "multipass_setup (w\<lparr>stdout_buffer := []\<rparr>)"
  have c: "w\<lparr>argv := a, stdout_buffer := []\<rparr> = w\<lparr>stdout_buffer := []\<rparr>\<lparr>argv := a\<rparr>" by simp
  have m: "multipass_setup (w\<lparr>argv := a, stdout_buffer := []\<rparr>) = (fst ?m, (snd ?m)\<lparr>argv := a\<rparr>)"
    unfolding c by (rule multipass_setup_argv)
  show "exit_status (run_script (w\<lparr>argv := a\<rparr>)) = exit_status (run_script w)"
    "reported (run_script (w\<lparr>argv := a\<rparr>)) = reported (run_script w)"
    "final (run_script (w\<lparr>argv := a\<rparr>)) = (final (run_script w))\<lparr>argv := a\<rparr>"
    by (simp_all add: run_script_unfold m stdout_flush_argv split: sum.splits)
qed

subsection \<open>The example states\<close>



lemma targets:
  "target empty_dir = (''/home/dev'', ''multipass_setup_guide.md'')"
  "target readonly_dir = (''/root'', ''multipass_setup_guide.md'')"
  "target used_dir = (''/tmp/work'', ''multipass_setup_guide.md'')"
  "target full_disk = (''/tmp/work'', ''multipass_setup_guide.md'')"
  "target ascii_locale = (''/tmp/work'', ''multipass_setup_guide.md'')"
  "target ascii_replace_stdout = (''/tmp/work'', ''multipass_setup_guide.md'')"
  "target full_stdout = (''/tmp/work'', ''multipass_setup_guide.md'')"
  "target linked_dir = (''/tmp/work'', ''multipass_setup_guide.md'')"
  "target dangling_link = (''/home/dev'', ''multipass_setup_guide.md'')"
  by (simp_all add: target_def output_filename_def empty_dir_def readonly_dir_def used_dir_def
      full_disk_def ascii_locale_def ascii_replace_stdout_def full_stdout_def linked_dir_def
      dangling_link_def)

lemma writable_examples:
  "writable empty_dir" "writable used_dir" "writable ascii_locale" "writable ascii_replace_stdout"
  "writable full_stdout" "writable linked_dir" "writable dangling_link"
  by (simp_all add: writable_def opens_def targets)
    (simp_all add: empty_dir_def used_dir_def ascii_locale_def ascii_replace_stdout_def
      full_stdout_def linked_dir_def dangling_link_def utf8_terminal_def resolve_nolink resolve_link)

lemma utf8_examples:
  "file_encode (env empty_dir) = utf8" "file_encode (env used_dir) = utf8"
  "file_encode (env ascii_replace_stdout) = utf8" "file_encode (env full_stdout) = utf8"
  "file_encode (env linked_dir) = utf8" "file_encode (env dangling_link) = utf8"
  "file_encode (env full_disk) = utf8"
  by (simp_all add: empty_dir_def used_dir_def ascii_replace_stdout_def full_stdout_def
      linked_dir_def dangling_link_def full_disk_def utf8_terminal_def)

lemma stdout_takes_examples:
  "stdout_takes empty_dir printed_texts" "stdout_takes used_dir printed_texts"
  "stdout_takes ascii_replace_stdout printed_texts" "stdout_takes linked_dir printed_texts"
  "stdout_takes dangling_link printed_texts"
  by (simp_all add: stdout_takes_def empty_dir_def used_dir_def ascii_replace_stdout_def
      linked_dir_def dangling_link_def utf8_terminal_def printed_bytes_utf8
      printed_bytes_ascii_replace)

lemma exit_0_examples:
  "exit_status (run_script empty_dir) = 0" "exit_status (run_script used_dir) = 0"
  "exit_status (run_script ascii_replace_stdout) = 0" "exit_status (run_script linked_dir) = 0"
  "exit_status (run_script dangling_link) = 0"
  by (simp_all add: run_succeeds writable_examples utf8_examples stdout_takes_examples utf8_def)


subsection \<open>Runs that fail after the file is opened\<close>






lemma run_warnings_raised:
  "exit_status (run_script warnings_raised) = 1
    \<and> reported (run_script warnings_raised) = Some EncodingWarning
    \<and> files used_dir (''/tmp/work'', ''multipass_setup_guide.md'') = Some ''an older guide''
    \<and> files (final (run_script warnings_raised)) (''/tmp/work'', ''multipass_setup_guide.md'') = Some []"
proof -
  have e: "open_error (env warnings_raised) = (\<lambda>p. None)"
    "text_layer_error (env warnings_raised) = Some EncodingWarning"
    "symlinks warnings_raised = Map.empty" "cwd warnings_raised = ''/tmp/work''"
    by (simp_all add: warnings_raised_def used_dir_def utf8_terminal_def)
  have t: "target warnings_raised = (''/tmp/work'', ''multipass_setup_guide.md'')"
    by (simp add: target_def output_filename_def e)
  have r: "open_error (env warnings_raised) (target warnings_raised) = None"
    "resolve 40 (symlinks warnings_raised) (target warnings_raised) = Some (target warnings_raised)"
    "text_layer_error (env warnings_raised) = Some EncodingWarning"
    by (simp_all add: e resolve_nolink)
  have x: "fst (write_guide warnings_raised) = Inl EncodingWarning"
    by (simp add: write_guide_text_layer [OF r])
  have f: "files (snd (write_guide warnings_raised)) (target warnings_raised) = Some []"
    by (simp add: write_guide_text_layer [OF r] files_def e resolve_nolink)
  have 2: "files (final (run_script warnings_raised)) (target warnings_raised) = Some []"
    using f files_rest [OF run_script_rest, of warnings_raised] by simp
  have 3: "files used_dir (''/tmp/work'', ''multipass_setup_guide.md'') = Some ''an older guide''"
    by (simp add: files_def used_dir_def resolve_nolink)
  from with_fails_run(2,3) [OF x] 2 3 show ?thesis by (simp add: t)
qed

section \<open>The claims\<close>









text \<open>
  Claim C4. The script reads no argument: a run started with other arguments \<open>a\<close> ends
  the same way and in the same state, the arguments themselves apart. What the
  environment variables and the locale set (the encodings, the buffering of standard
  output) reaches a run only through \<open>env\<close>; whatever the arguments \<open>a\<close> and whatever
  \<open>e\<close> is put for \<open>env\<close>, the only path that a library call of the script names is
  \<^verbatim>\<open>multipass_setup_guide.md\<close> in the working directory.
\<close>

theorem fixed_output_path:
  "multipass_setup (w\<lparr>argv := a\<rparr>) =
     (fst (multipass_setup w), (snd (multipass_setup w))\<lparr>argv := a\<rparr>)
   \<and> exit_status (run_script (w\<lparr>argv := a\<rparr>)) = exit_status (run_script w)
   \<and> final (run_script (w\<lparr>argv := a\<rparr>)) = (final (run_script w))\<lparr>argv := a\<rparr>
   \<and> set (concat (map touched (new_calls (w\<lparr>argv := a, env := e\<rparr>))))
       = {(cwd w, ''multipass_setup_guide.md'')}"
proof -
  have "set (concat (map touched (new_calls (w\<lparr>argv := a, env := e\<rparr>))))
      = {(cwd w, ''multipass_setup_guide.md'')}"
    using touched_new_calls [of "w\<lparr>argv := a, env := e\<rparr>"]
    by (simp add: target_def output_filename_def)
  with multipass_setup_argv [where w = w and a = a] run_script_argv(1,3) [where w = w and a = a]
  show ?thesis by blast
qed

theorem fixed_output_path_witness:
  "multipass_setup (empty_dir\<lparr>argv := [''multipass-setup.py'', ''guide.md'']\<rparr>) =
     (fst (multipass_setup empty_dir),
      (snd (multipass_setup empty_dir))\<lparr>argv := [''multipass-setup.py'', ''guide.md'']\<rparr>)
   \<and> exit_status (run_script (empty_dir\<lparr>argv := [''multipass-setup.py'', ''guide.md'']\<rparr>)) = 0
   \<and> set (concat (map touched (new_calls
         (empty_dir\<lparr>argv := [''multipass-setup.py'', ''guide.md''], env := env ascii_locale\<rparr>))))
       = {(''/home/dev'', ''multipass_setup_guide.md'')}"
proof -
  have c: "cwd empty_dir = ''/home/dev''" by (simp add: empty_dir_def)
  from fixed_output_path [where w = empty_dir and a = "[''multipass-setup.py'', ''guide.md'']"
      and e = "env ascii_locale"]
  show ?thesis by (simp add: c exit_0_examples)
qed

text \<open>
  Claim C5, as the specification states it, does not hold: what reaches standard output
  depends on the encoding and the error handler the environment sets for it. Two runs in
  the same directory both exit with status 0; under UTF-8 the output starts with the
  three bytes of the check mark, under \<^verbatim>\<open>PYTHONIOENCODING=ascii:replace\<close> with a question
  mark.
\<close>

theorem stdout_encoding_counterexample:
  "exit_status (run_script used_dir) = 0
    \<and> exit_status (run_script ascii_replace_stdout) = 0
    \<and> take 3 (stdout (final (run_script used_dir))) = check_mark
    \<and> take 9 (stdout (final (run_script ascii_replace_stdout))) = ''? Created''
    \<and> stdout (final (run_script used_dir)) \<noteq> stdout (final (run_script ascii_replace_stdout))"
proof -
  have m: "stdout_mode (env used_dir) \<noteq> NoStdout" "stdout_mode (env ascii_replace_stdout) \<noteq> NoStdout"
    "stdout_encode (env used_dir) = utf8" "stdout_encode (env ascii_replace_stdout) = ascii_replace"
    "stdout used_dir = []" "stdout ascii_replace_stdout = []"
    by (simp_all add: used_dir_def ascii_replace_stdout_def utf8_terminal_def)
  from run_output(2) [OF exit_0_examples(2)] m
  have 1: "stdout (final (run_script used_dir)) = unlines confirmation_lines"
    by (simp add: printed_bytes_utf8 unlines_confirmation)
  from run_output(2) [OF exit_0_examples(3)] m
  have 2: "stdout (final (run_script ascii_replace_stdout)) =
      unlines (''? Created comprehensive Multipass setup guide: multipass_setup_guide.md''
        # tl confirmation_lines)"
    by (simp add: printed_bytes_ascii_replace)
  have 3: "take 3 (stdout (final (run_script used_dir))) = check_mark"
    by (simp add: 1 unlines_def confirmation_lines_def check_mark_def)
  have 4: "take 9 (stdout (final (run_script ascii_replace_stdout))) = ''? Created''"
    by (simp add: 2 unlines_def confirmation_lines_def)
  have 5: "stdout (final (run_script used_dir)) \<noteq> stdout (final (run_script ascii_replace_stdout))"
  proof
    assume "stdout (final (run_script used_dir)) = stdout (final (run_script ascii_replace_stdout))"
    then have "take 1 (take 3 (stdout (final (run_script used_dir))))
        = take 1 (take 9 (stdout (final (run_script ascii_replace_stdout))))"
      by simp
    then show False unfolding 3 4 by (simp add: check_mark_def)
  qed
  from exit_0_examples(2,3) 3 4 5 show ?thesis by simp
qed

text \<open>
  Claim C5, amended. In every run that exits with status 0 the script has called
  \<^verbatim>\<open>print\<close> with the same nine texts, whatever the state it started in: the success
  marker, which ends with the name of the output file, a heading after an empty line,
  and seven lines that list what the guide holds. What reaches standard output is these
  texts in the encoding, and with the error handler, that the environment sets for
  standard output; in UTF-8 it is exactly the ten lines below. Where the process has no
  standard output, nothing is printed.
\<close>

theorem confirmation_output:
  assumes "exit_status (run_script w) = 0"
  shows "drop (length (calls w)) (calls (final (run_script w))) =
      [CallOpen (target w), CallWrite (target w) guide_content, CallClose (target w)]
        @ map CallPrint printed_texts
    \<and> (stdout_mode (env w) = NoStdout \<longrightarrow> stdout (final (run_script w)) = stdout w)
    \<and> (stdout_mode (env w) \<noteq> NoStdout \<longrightarrow>
         (\<exists>out. printed_bytes (stdout_encode (env w)) printed_texts = Some out
            \<and> stdout (final (run_script w)) = stdout w @ out))
    \<and> printed_bytes utf8 printed_texts = Some (unlines
         [check_mark @ '' Created comprehensive Multipass setup guide: multipass_setup_guide.md'',
          '''',
          ''File contains:'',
          ''- Complete installation instructions'',
          ''- VM configuration with Podman'',
          ''- VSCode remote development setup'',
          ''- File mounting (bidirectional)'',
          ''- Example workflows and scripts'',
          ''- Troubleshooting section'',
          ''- Quick reference commands''])
    \<and> suffix (snd (target w)) (hd printed_texts)"
proof -
  let ?w0 = "w\<lparr>stdout_buffer := []\<rparr>"
  from assms have m: "fst (multipass_setup ?w0) = Inr ()" by (simp add: exit_0_iff)
  have t: "target ?w0 = target w" by (simp add: target_def)
  have "calls (final (run_script w)) = calls (snd (multipass_setup ?w0))"
    by (simp add: run_script_unfold)
  with multipass_setup_calls_ok [OF m] have 1:
    "drop (length (calls w)) (calls (final (run_script w))) =
      [CallOpen (target w), CallWrite (target w) guide_content, CallClose (target w)]
        @ map CallPrint printed_texts"
    by (simp add: t)
  have 4: "printed_bytes utf8 printed_texts = Some (unlines
         [check_mark @ '' Created comprehensive Multipass setup guide: multipass_setup_guide.md'',
          '''',
          ''File contains:'',
          ''- Complete installation instructions'',
          ''- VM configuration with Podman'',
          ''- VSCode remote development setup'',
          ''- File mounting (bidirectional)'',
          ''- Example workflows and scripts'',
          ''- Troubleshooting section'',
          ''- Quick reference commands''])"
    using unlines_confirmation by (simp add: printed_bytes_utf8 confirmation_lines_def)
  have 5: "suffix (snd (target w)) (hd printed_texts)"
    by (simp add: printed_texts_def target_def output_filename_def suffix_def)
  from 1 run_output [OF assms] 4 5 show ?thesis by blast
qed

theorem confirmation_output_witness:
  "stdout (final (run_script empty_dir)) = unlines
     [check_mark @ '' Created comprehensive Multipass setup guide: multipass_setup_guide.md'',
      '''',
      ''File contains:'',
      ''- Complete installation instructions'',
      ''- VM configuration with Podman'',
      ''- VSCode remote development setup'',
      ''- File mounting (bidirectional)'',
      ''- Example workflows and scripts'',
      ''- Troubleshooting section'',
      ''- Quick reference commands'']
   \<and> stdout (final (run_script ascii_replace_stdout)) = unlines
     [''? Created comprehensive Multipass setup guide: multipass_setup_guide.md'',
      '''',
      ''File contains:'',
      ''- Complete installation instructions'',
      ''- VM configuration with Podman'',
      ''- VSCode remote development setup'',
      ''- File mounting (bidirectional)'',
      ''- Example workflows and scripts'',
      ''- Troubleshooting section'',
      ''- Quick reference commands'']
   \<and> suffix ''multipass_setup_guide.md'' (hd printed_texts)"
proof -
  have m: "stdout_mode (env empty_dir) \<noteq> NoStdout" "stdout_mode (env ascii_replace_stdout) \<noteq> NoStdout"
    "stdout_encode (env empty_dir) = utf8" "stdout_encode (env ascii_replace_stdout) = ascii_replace"
    "stdout empty_dir = []" "stdout ascii_replace_stdout = []"
    by (simp_all add: empty_dir_def used_dir_def ascii_replace_stdout_def utf8_terminal_def)
  from confirmation_output [OF exit_0_examples(1)] confirmation_output [OF exit_0_examples(3)]
  show ?thesis
    by (simp add: m targets printed_bytes_ascii_replace confirmation_lines_def)
qed

text \<open>
  Claim C6. When opening, writing or closing the output file fails, the module body ends
  with an exception: nothing catches it. The interpreter reports that exception, the
  exit status is not 0, nothing is printed to standard output, and the script has made
  each of its calls \<^verbatim>\<open>open\<close>, \<^verbatim>\<open>write\<close>, \<^verbatim>\<open>close\<close> at most once, in that order: nothing
  is tried again. Where the text layer is set up and the guide can be encoded, the
  exception is one of the errors the operating system raised.
\<close>

theorem io_failure_propagates:
  assumes "open_error (env w) (target w) \<noteq> None \<or> write_error (env w) \<noteq> None
    \<or> close_error (env w) \<noteq> None"
  shows "\<exists>x. fst (multipass_setup w) = Inl x
    \<and> (resolve 40 (symlinks w) (target w) \<noteq> None \<and> text_layer_error (env w) = None
         \<and> file_encode (env w) guide_content \<noteq> None \<longrightarrow>
       (\<exists>e. x = OSErr e \<and> (open_error (env w) (target w) = Some e
          \<or> (\<exists>n. write_error (env w) = Some (n, e)) \<or> (\<exists>n. close_error (env w) = Some (n, e)))))
    \<and> reported (run_script w) = Some x
    \<and> exit_status (run_script w) \<noteq> 0
    \<and> stdout (final (run_script w)) = stdout w
    \<and> prefix (new_calls w) [CallOpen (target w), CallWrite (target w) guide_content, CallClose (target w)]"
proof -
  have nok: "fst (write_guide w) \<noteq> Inr ()"
    using assms by (auto simp add: write_guide_ok_iff opens_def with_error_None_iff)
  then obtain x where x: "fst (write_guide w) = Inl x" by (cases "fst (write_guide w)") auto
  note run = with_fails_run [OF x]
  have kind: "resolve 40 (symlinks w) (target w) \<noteq> None \<and> text_layer_error (env w) = None
         \<and> file_encode (env w) guide_content \<noteq> None \<longrightarrow>
       (\<exists>e. x = OSErr e \<and> (open_error (env w) (target w) = Some e
          \<or> (\<exists>n. write_error (env w) = Some (n, e)) \<or> (\<exists>n. close_error (env w) = Some (n, e))))"
  proof (cases w rule: open_cases)
    case (open_fails e)
    with x show ?thesis by (auto simp add: write_guide_open_fails)
  next
    case loop
    then show ?thesis by simp
  next
    case (text_layer r y)
    then show ?thesis by simp
  next
    case (opened r)
    with x have "with_error (env w) = Some x"
      by (simp add: write_guide_opened split: option.splits)
    then show ?thesis by (auto simp add: with_error_def split: option.splits)
  qed
  have calls: "prefix (new_calls w)
      [CallOpen (target w), CallWrite (target w) guide_content, CallClose (target w)]"
    by (cases w rule: open_cases)
      (simp_all add: new_calls_def run(5) write_guide_open_fails write_guide_loop
        write_guide_text_layer write_guide_opened)
  from run(1,2,3,4) kind calls show ?thesis by simp
qed

theorem io_failure_propagates_witness:
  "(\<exists>x. fst (multipass_setup readonly_dir) = Inl x
      \<and> x = OSErr PermissionError
      \<and> reported (run_script readonly_dir) = Some x
      \<and> exit_status (run_script readonly_dir) \<noteq> 0
      \<and> stdout (final (run_script readonly_dir)) = [])
   \<and> (\<exists>x. fst (multipass_setup full_disk) = Inl x
      \<and> x = OSErr (OSError 28)
      \<and> reported (run_script full_disk) = Some x
      \<and> exit_status (run_script full_disk) \<noteq> 0
      \<and> stdout (final (run_script full_disk)) = [])"
proof -
  have e1: "open_error (env readonly_dir) (target readonly_dir) = Some PermissionError"
    "resolve 40 (symlinks readonly_dir) (target readonly_dir) \<noteq> None"
    "text_layer_error (env readonly_dir) = None"
    "file_encode (env readonly_dir) guide_content \<noteq> None"
    "write_error (env readonly_dir) = None" "close_error (env readonly_dir) = None"
    "stdout readonly_dir = []"
    by (simp_all add: readonly_dir_def empty_dir_def utf8_terminal_def utf8_def resolve_nolink)
  have e2: "open_error (env full_disk) (target full_disk) = None"
    "resolve 40 (symlinks full_disk) (target full_disk) \<noteq> None"
    "text_layer_error (env full_disk) = None"
    "file_encode (env full_disk) guide_content \<noteq> None"
    "write_error (env full_disk) = Some (5, OSError 28)" "close_error (env full_disk) = None"
    "stdout full_disk = []"
    by (simp_all add: full_disk_def used_dir_def utf8_terminal_def utf8_def resolve_nolink)
  have 1: "open_error (env readonly_dir) (target readonly_dir) \<noteq> None
      \<or> write_error (env readonly_dir) \<noteq> None \<or> close_error (env readonly_dir) \<noteq> None"
    by (simp add: e1)
  have 2: "open_error (env full_disk) (target full_disk) \<noteq> None
      \<or> write_error (env full_disk) \<noteq> None \<or> close_error (env full_disk) \<noteq> None"
    by (simp add: e2)
  from io_failure_propagates [OF 1] io_failure_propagates [OF 2] show ?thesis
    by (auto simp add: e1 e2)
qed

text \<open>
  Claim C7. When the output file cannot be opened for writing (the operating system
  answers \<^verbatim>\<open>open\<close> with an error: \<open>FileNotFoundError\<close> for a missing parent
  directory, \<open>PermissionError\<close> where the process may not write), the run fails with
  that error, the exit status is not 0, and the file system is as it was before the
  run: every path reads as before, so the output file is unchanged when it existed and
  absent when it did not.
\<close>

theorem open_failure_leaves_files:
  assumes "open_error (env w) (target w) = Some e"
  shows "fst (multipass_setup w) = Inl (OSErr e)
    \<and> exit_status (run_script w) \<noteq> 0
    \<and> files (snd (multipass_setup w)) = files w
    \<and> files (final (run_script w)) = files w
    \<and> symlinks (snd (multipass_setup w)) = symlinks w
    \<and> entries (snd (multipass_setup w)) = entries w
    \<and> data (snd (multipass_setup w)) = data w"
proof -
  have x: "fst (write_guide w) = Inl (OSErr e)" using assms by (simp add: write_guide_open_fails)
  have r: "rest_of (snd (write_guide w)) = rest_of w" using assms by (rule write_guide_open_error_fs)
  then have 1: "rest_of (snd (multipass_setup w)) = rest_of w" "rest_of (final (run_script w)) = rest_of w"
    by simp_all
  from with_fails_run(1,3) [OF x] files_rest [OF 1(1)] files_rest [OF 1(2)] 1(1) show ?thesis
    by (simp add: rest_of_def)
qed

theorem open_failure_leaves_files_witness:
  "fst (multipass_setup readonly_dir) = Inl (OSErr PermissionError)
    \<and> exit_status (run_script readonly_dir) \<noteq> 0
    \<and> files (snd (multipass_setup readonly_dir)) (''/root'', ''multipass_setup_guide.md'') = None"
proof -
  have 1: "open_error (env readonly_dir) (target readonly_dir) = Some PermissionError"
    by (simp add: readonly_dir_def empty_dir_def utf8_terminal_def)
  have 2: "files readonly_dir (''/root'', ''multipass_setup_guide.md'') = None"
    by (simp add: files_def readonly_dir_def empty_dir_def resolve_nolink)
  from open_failure_leaves_files [OF 1] show ?thesis by (simp add: 2)
qed









end
